theory Spec2Isabelle
  imports Complex_Main "HOL-Library.Multiset" "HOL-Library.Option_ord" "HOL-Library.AList"
begin

section \<open>FX dashboard server: ticks, candles, collection cycle, analysis guard\<close>

text \<open>
  The repository keeps three revisions of \<^verbatim>\<open>server.js\<close>:
  \<^item> \<^verbatim>\<open>part_000\<close>: tick store, collection cycle \<^verbatim>\<open>refresh\<close>, candle endpoint;
  \<^item> \<^verbatim>\<open>part_002\<close>: the same store and cycle, \<^verbatim>\<open>getCandles\<close>, and an analysis endpoint
    with a two-hour cache and a fallback answer on failure;
  \<^item> \<^verbatim>\<open>part_001\<close>: a rewrite with second-resolution timestamps, a truthiness test in
    \<^verbatim>\<open>saveTicks\<close>, and an analysis endpoint with a twelve-hour cache and a global
    five-minute cooldown.
  Definitions shared by \<^verbatim>\<open>part_000\<close> and \<^verbatim>\<open>part_002\<close> carry the source's name; the
  definitions of \<^verbatim>\<open>part_001\<close> carry the suffix \<open>_cd\<close>, and what only
  \<^verbatim>\<open>part_000\<close> has carries \<open>_v0\<close>.
\<close>

subsection \<open>JavaScript values\<close>

text \<open>
  A JavaScript number is an IEEE 754 double: a finite value, one of the two infinities, or
  NaN. A finite number is modelled by the real number that the double is (the two zeros
  are the one real 0). Reading, storing and comparing numbers is exact. The two places
  where the program computes with numbers, a subtraction and \<^verbatim>\<open>toFixed\<close>, round as the
  standard prescribes, through \<open>RN\<close> below.
\<close>

datatype jsnum = NaN | NegInf | Fin real | PosInf

text \<open>
  Values: \<^verbatim>\<open>null\<close>, a number, a string, and the string that \<^verbatim>\<open>x.toFixed(2)\<close> returns,
  which is kept as the number \<open>x\<close> it formats (\<open>ToFixed2 x\<close>).
\<close>

datatype jsval = Null | Number jsnum | Str string | ToFixed2 jsnum

subsection \<open>Rounding to the nearest double\<close>

text \<open>
  \<open>RN x\<close> is the double nearest to the real \<open>x\<close>, a tie going to the even significand
  (IEEE 754 binary64, round to nearest even): the result of every correctly rounded
  operation whose exact result is \<open>x\<close>, and the number that a decimal text of value \<open>x\<close>
  parses to. \<open>expo a\<close> is the binary exponent \<open>e\<close> of a positive \<open>a\<close>, with
  \<open>2\<^sup>e \<le> a < 2\<^sup>e\<^sup>+\<^sup>1\<close>; the search for it stops after 1100 steps, beyond the exponents of
  the doubles on either side. The spacing of the doubles around \<open>a\<close> is \<open>2\<^sup>e\<^sup>-\<^sup>5\<^sup>2\<close>, and
  \<open>2\<^sup>-\<^sup>1\<^sup>0\<^sup>7\<^sup>4\<close> below \<open>2\<^sup>-\<^sup>1\<^sup>0\<^sup>2\<^sup>2\<close> (the subnormal numbers). A result of \<open>2\<^sup>1\<^sup>0\<^sup>2\<^sup>4\<close> or more
  is an infinity.
\<close>

definition pow2 :: "int \<Rightarrow> real" where
  "pow2 e = (if 0 \<le> e then 2 ^ nat e else 1 / 2 ^ nat (- e))"

fun expo_up :: "nat \<Rightarrow> real \<Rightarrow> int \<Rightarrow> int" where
  "expo_up n a e = (if n = 0 \<or> a < 2 then e else expo_up (n - 1) (a / 2) (e + 1))"

fun expo_down :: "nat \<Rightarrow> real \<Rightarrow> int \<Rightarrow> int" where
  "expo_down n a e = (if n = 0 \<or> 1 \<le> a then e else expo_down (n - 1) (a * 2) (e - 1))"

declare expo_up.simps [simp del]

declare expo_down.simps [simp del]

definition expo :: "real \<Rightarrow> int" where
  "expo a = (if 1 \<le> a then expo_up 1100 a 0 else expo_down 1100 a 0)"

text \<open>The integer nearest to \<open>q\<close>, a tie going to the even one.\<close>

definition rne :: "real \<Rightarrow> int" where
  "rne q =
     (let f = \<lfloor>q\<rfloor> in
      if q - real_of_int f < 1 / 2 then f
      else if 1 / 2 < q - real_of_int f then f + 1
      else if even f then f else f + 1)"

text \<open>\<open>RN_pack x y\<close>: the rounded magnitude \<open>y\<close> with the sign of \<open>x\<close>, or the overflow.
  \<open>RN_ulp x u\<close>: \<open>x\<close> rounded to a multiple of the spacing \<open>u\<close>.\<close>

definition RN_pack :: "real \<Rightarrow> real \<Rightarrow> jsnum" where
  "RN_pack x y = (if 2 ^ 1024 \<le> y then (if 0 < x then PosInf else NegInf) else Fin (sgn x * y))"

definition RN_ulp :: "real \<Rightarrow> real \<Rightarrow> jsnum" where
  "RN_ulp x u = RN_pack x (real_of_int (rne (\<bar>x\<bar> / u)) * u)"

definition RN :: "real \<Rightarrow> jsnum" where
  "RN x = (if x = 0 then Fin 0 else RN_ulp x (pow2 (max (expo \<bar>x\<bar>) (- 1022) - 52)))"

subsection \<open>Operations on values\<close>

text \<open>\<^verbatim>\<open>Number.isFinite(value)\<close>\<close>

fun isFinite :: "jsnum \<Rightarrow> bool" where
  "isFinite (Fin x) = True"
| "isFinite NaN = False"
| "isFinite NegInf = False"
| "isFinite PosInf = False"

text \<open>\<^verbatim>\<open>typeof value === "number"\<close>\<close>

fun isNumber :: "jsval \<Rightarrow> bool" where
  "isNumber (Number n) = True"
| "isNumber Null = False"
| "isNumber (Str s) = False"
| "isNumber (ToFixed2 x) = False"

text \<open>The truthiness of a value, as \<^verbatim>\<open>if (v)\<close> tests it: null, NaN, zero and the empty
  string are falsy. The string that \<^verbatim>\<open>toFixed\<close> returns is never empty.\<close>

fun truthy :: "jsval \<Rightarrow> bool" where
  "truthy Null = False"
| "truthy (Number NaN) = False"
| "truthy (Number (Fin x)) = (x \<noteq> 0)"
| "truthy (Number NegInf) = True"
| "truthy (Number PosInf) = True"
| "truthy (Str s) = (s \<noteq> [])"
| "truthy (ToFixed2 x) = True"

text \<open>\<^verbatim>\<open>Math.max(a, b)\<close> and \<^verbatim>\<open>Math.min(a, b)\<close>: NaN if either argument is NaN.\<close>

fun js_max :: "jsnum \<Rightarrow> jsnum \<Rightarrow> jsnum" where
  "js_max NaN b = NaN"
| "js_max a NaN = NaN"
| "js_max PosInf b = PosInf"
| "js_max a PosInf = PosInf"
| "js_max NegInf b = b"
| "js_max a NegInf = a"
| "js_max (Fin x) (Fin y) = Fin (max x y)"

fun js_min :: "jsnum \<Rightarrow> jsnum \<Rightarrow> jsnum" where
  "js_min NaN b = NaN"
| "js_min a NaN = NaN"
| "js_min NegInf b = NegInf"
| "js_min a NegInf = NegInf"
| "js_min PosInf b = b"
| "js_min a PosInf = a"
| "js_min (Fin x) (Fin y) = Fin (min x y)"

text \<open>\<^verbatim>\<open>a - b\<close> on numbers: the exact difference of two finite doubles, rounded to the
  nearest double.\<close>

fun js_sub :: "jsnum \<Rightarrow> jsnum \<Rightarrow> jsnum" where
  "js_sub NaN b = NaN"
| "js_sub a NaN = NaN"
| "js_sub PosInf PosInf = NaN"
| "js_sub NegInf NegInf = NaN"
| "js_sub PosInf b = PosInf"
| "js_sub NegInf b = NegInf"
| "js_sub (Fin x) PosInf = NegInf"
| "js_sub (Fin x) NegInf = PosInf"
| "js_sub (Fin x) (Fin y) = RN (x - y)"


subsection \<open>The tick store\<close>

text \<open>
  \<^verbatim>\<open>CREATE TABLE ticks (ts INTEGER NOT NULL, symbol TEXT NOT NULL, value REAL NOT NULL)\<close>.
  The table is the list of its rows in insertion order. A \<^verbatim>\<open>REAL\<close> column holds the
  infinities as well as finite values.
\<close>

record tick =
  ts :: int
  symbol :: string
  val :: jsnum

type_synonym db = "tick list"

text \<open>\<^verbatim>\<open>insertTick.run(ts, symbol, value)\<close>:
  \<^verbatim>\<open>INSERT INTO ticks (ts, symbol, value) VALUES (?, ?, ?)\<close>\<close>

definition insertTick :: "int \<Rightarrow> string \<Rightarrow> jsnum \<Rightarrow> db \<Rightarrow> db" where
  "insertTick t s v d = d @ [\<lparr>ts = t, symbol = s, val = v\<rparr>]"

text \<open>
  \<^verbatim>\<open>selectTicks.all(symbol, start, end)\<close>:
  \<^verbatim>\<open>SELECT ts, value FROM ticks WHERE symbol=? AND ts>=? AND ts<=? ORDER BY ts ASC\<close>.
  The result rows are pairs \<open>(ts, value)\<close>. Rows of equal \<open>ts\<close> come in insertion
  order (the order of the scan of the index on \<open>(symbol, ts)\<close>).
\<close>

type_synonym row = "int \<times> jsnum"

definition selectTicks :: "db \<Rightarrow> string \<Rightarrow> int \<Rightarrow> int \<Rightarrow> row list" where
  "selectTicks d s a b =
     sort_key fst (map (\<lambda>k. (ts k, val k))
       (filter (\<lambda>k. symbol k = s \<and> a \<le> ts k \<and> ts k \<le> b) d))"

text \<open>
  The range query of \<^verbatim>\<open>part_001\<close>'s \<^verbatim>\<open>getCandles\<close>, with a lower bound only:
  \<^verbatim>\<open>SELECT ts, value FROM ticks WHERE symbol = ? AND ts >= ? ORDER BY ts ASC\<close>.
\<close>

definition selectSince_cd :: "db \<Rightarrow> string \<Rightarrow> int \<Rightarrow> row list" where
  "selectSince_cd d s a =
     sort_key fst (map (\<lambda>k. (ts k, val k))
       (filter (\<lambda>k. symbol k = s \<and> a \<le> ts k) d))"

subsection \<open>Batch save\<close>

text \<open>
  \<^verbatim>\<open>saveTicks(ts, map)\<close> of \<^verbatim>\<open>part_000\<close> and \<^verbatim>\<open>part_002\<close>: one transaction over
  \<^verbatim>\<open>Object.entries(map)\<close>, in the order of the object's keys, inserting each entry whose
  value is a finite number.
  \<^verbatim>\<open>
  for (const [symbol, value] of pairs) {
    if (typeof value === "number" && Number.isFinite(value)) {
      insertTick.run(ts, symbol, value);
    }
  }
  \<close>
\<close>

fun saveTicks :: "int \<Rightarrow> (string \<times> jsval) list \<Rightarrow> db \<Rightarrow> db" where
  "saveTicks t [] d = d"
| "saveTicks t ((s, Number v) # pairs) d =
     (if isFinite v then saveTicks t pairs (insertTick t s v d) else saveTicks t pairs d)"
| "saveTicks t ((s, Null) # pairs) d = saveTicks t pairs d"
| "saveTicks t ((s, Str x) # pairs) d = saveTicks t pairs d"
| "saveTicks t ((s, ToFixed2 x) # pairs) d = saveTicks t pairs d"

text \<open>
  \<^verbatim>\<open>saveTicks(ts, data)\<close> of \<^verbatim>\<open>part_001\<close>: the presence of each of five fixed fields is
  tested by truthiness; the rows collected are inserted in one transaction.
  \<^verbatim>\<open>
  const rows = [];
  if (data.USDKRW) rows.push([ts, "USDKRW", data.USDKRW]);
  if (data.EURKRW) rows.push([ts, "EURKRW", data.EURKRW]);
  if (data.DXY) rows.push([ts, "DXY", data.DXY]);
  if (data.KR10Y) rows.push([ts, "KR10Y", data.KR10Y]);
  if (data.US10Y) rows.push([ts, "US10Y", data.US10Y]);
  if (rows.length > 0) insertMany(rows);
  \<close>
  The object \<open>data\<close> is a map from field names to values; a missing field reads as
  \<^verbatim>\<open>undefined\<close>, which is falsy like \<^verbatim>\<open>null\<close>. The fields hold numbers or
  \<^verbatim>\<open>null\<close>; a string bound to the \<^verbatim>\<open>REAL\<close> column is outside the model and is not
  inserted here.
\<close>

definition field :: "(string \<rightharpoonup> jsval) \<Rightarrow> string \<Rightarrow> jsval" where
  "field data k = (case data k of None \<Rightarrow> Null | Some v \<Rightarrow> v)"

definition push_cd :: "int \<Rightarrow> (string \<rightharpoonup> jsval) \<Rightarrow> string \<Rightarrow> tick list \<Rightarrow> tick list" where
  "push_cd t data k rows =
     (if truthy (field data k)
      then (case field data k of
              Number v \<Rightarrow> rows @ [\<lparr>ts = t, symbol = k, val = v\<rparr>]
            | _ \<Rightarrow> rows)
      else rows)"

definition rows_cd :: "int \<Rightarrow> (string \<rightharpoonup> jsval) \<Rightarrow> tick list" where
  "rows_cd t data =
     push_cd t data ''US10Y'' (push_cd t data ''KR10Y'' (push_cd t data ''DXY''
       (push_cd t data ''EURKRW'' (push_cd t data ''USDKRW'' []))))"

definition saveTicks_cd :: "int \<Rightarrow> (string \<rightharpoonup> jsval) \<Rightarrow> db \<Rightarrow> db" where
  "saveTicks_cd t data d = (if length (rows_cd t data) > 0 then d @ rows_cd t data else d)"

subsection \<open>Parsing the bucket width and the range\<close>

text \<open>
  Both parsers match their argument against a regular expression of the shape
  \<^verbatim>\<open>/^(\d+)([dh])$/\<close>: one or more decimal digits followed by exactly one unit letter.
  \<open>matchNumUnit units s\<close> is the match: the digits and the unit, or \<open>None\<close> when the
  string does not match (\<^verbatim>\<open>m\<close> is \<^verbatim>\<open>null\<close>).
\<close>

definition isDigit :: "char \<Rightarrow> bool" where
  "isDigit ch = (ch \<in> set ''0123456789'')"

definition matchNumUnit :: "string \<Rightarrow> string \<Rightarrow> (string \<times> char) option" where
  "matchNumUnit units s =
     (if s = [] then None
      else if butlast s \<noteq> [] \<and> list_all isDigit (butlast s) \<and> last s \<in> set units
      then Some (butlast s, last s) else None)"

text \<open>\<^verbatim>\<open>parseInt(m[1], 10)\<close> on a string of digits. The result here is the exact integer,
  and the products of the parsers below are exact. The program has the nearest double
  instead, which is the same number up to \<open>2\<^sup>5\<^sup>3\<close>; beyond, the program's value is rounded,
  and it is \<^verbatim>\<open>Infinity\<close> for a string of more than 308 digits. No statement below is about
  a width or a range of that size.\<close>

definition digitVal :: "char \<Rightarrow> int" where
  "digitVal ch = int (of_char ch) - 48"

definition parseInt :: "string \<Rightarrow> int" where
  "parseInt ds = foldl (\<lambda>n ch. 10 * n + digitVal ch) 0 ds"

text \<open>\<^verbatim>\<open>String(x || dflt)\<close> for a string \<open>x\<close>: the empty string is falsy.\<close>

definition orDefault :: "string \<Rightarrow> string \<Rightarrow> string" where
  "orDefault x dflt = (if x = [] then dflt else x)"

text \<open>
  \<^verbatim>\<open>parseRangeToMs\<close> of \<^verbatim>\<open>part_000\<close> and \<^verbatim>\<open>part_002\<close>:
  \<^verbatim>\<open>
  const m = String(range || "7d").match(/^(\d+)([dh])$/);
  if (!m) return 7 * 24 * 60 * 60 * 1000;
  const n = parseInt(m[1], 10);
  return m[2] === "d" ? n * 24 * 60 * 60 * 1000 : n * 60 * 60 * 1000;
  \<close>
\<close>

definition parseRangeToMs :: "string \<Rightarrow> int" where
  "parseRangeToMs rng =
     (case matchNumUnit ''dh'' (orDefault rng ''7d'') of
        None \<Rightarrow> 7 * 24 * 60 * 60 * 1000
      | Some (ds, u) \<Rightarrow>
          (if u = CHR ''d'' then parseInt ds * 24 * 60 * 60 * 1000
           else parseInt ds * 60 * 60 * 1000))"

text \<open>
  \<^verbatim>\<open>intervalToMs\<close> of \<^verbatim>\<open>part_002\<close>:
  \<^verbatim>\<open>
  const m = String(interval || "30m").match(/^(\d+)([smh])$/);
  if (!m) return 30 * 60 * 1000;
  const n = parseInt(m[1], 10);
  if (m[2] === "s") return n * 1000;
  if (m[2] === "m") return n * 60 * 1000;
  return n * 60 * 60 * 1000;
  \<close>
\<close>

definition intervalToMs :: "string \<Rightarrow> int" where
  "intervalToMs interval =
     (case matchNumUnit ''smh'' (orDefault interval ''30m'') of
        None \<Rightarrow> 30 * 60 * 1000
      | Some (ds, u) \<Rightarrow>
          (if u = CHR ''s'' then parseInt ds * 1000
           else if u = CHR ''m'' then parseInt ds * 60 * 1000
           else parseInt ds * 60 * 60 * 1000))"

text \<open>\<^verbatim>\<open>intervalToMs\<close> of \<^verbatim>\<open>part_000\<close>: the units are \<^verbatim>\<open>[mh]\<close> only.\<close>

definition intervalToMs_v0 :: "string \<Rightarrow> int" where
  "intervalToMs_v0 interval =
     (case matchNumUnit ''mh'' (orDefault interval ''30m'') of
        None \<Rightarrow> 30 * 60 * 1000
      | Some (ds, u) \<Rightarrow>
          (if u = CHR ''m'' then parseInt ds * 60 * 1000
           else parseInt ds * 60 * 60 * 1000))"

text \<open>
  The parsers of \<^verbatim>\<open>part_001\<close>:
  \<^verbatim>\<open>
  function parseRangeToMs(range) {
    const m = range.match(/^(\d+)([mhd])$/);
    if (!m) return 24 * 3600 * 1000;
    const [, n, unit] = m;
    const val = parseInt(n, 10);
    if (unit === "m") return val * 60 * 1000;
    if (unit === "h") return val * 3600 * 1000;
    if (unit === "d") return val * 24 * 3600 * 1000;
    return 24 * 3600 * 1000;
  }
  function intervalToMs(interval) {
    const m = interval.match(/^(\d+)([mh])$/);
    if (!m) return 60000;
    const [, n, unit] = m;
    const val = parseInt(n, 10);
    return unit === "m" ? val * 60000 : val * 3600000;
  }
  \<close>
\<close>

definition parseRangeToMs_cd :: "string \<Rightarrow> int" where
  "parseRangeToMs_cd rng =
     (case matchNumUnit ''mhd'' rng of
        None \<Rightarrow> 24 * 3600 * 1000
      | Some (ds, u) \<Rightarrow>
          (if u = CHR ''m'' then parseInt ds * 60 * 1000
           else if u = CHR ''h'' then parseInt ds * 3600 * 1000
           else if u = CHR ''d'' then parseInt ds * 24 * 3600 * 1000
           else 24 * 3600 * 1000))"

definition intervalToMs_cd :: "string \<Rightarrow> int" where
  "intervalToMs_cd interval =
     (case matchNumUnit ''mh'' interval of
        None \<Rightarrow> 60000
      | Some (ds, u) \<Rightarrow>
          (if u = CHR ''m'' then parseInt ds * 60000 else parseInt ds * 3600000))"

subsection \<open>Candles\<close>

text \<open>
  \<^verbatim>\<open>bucketStart(ts, bucketMs) = Math.floor(ts / bucketMs) * bucketMs\<close>. Timestamps and
  widths are integers. With \<open>bucketMs = 0\<close> the quotient is an infinity or NaN and the
  product is NaN, for every \<open>ts\<close>: that is the value \<open>None\<close>. Otherwise the result is the
  integer below (exact for magnitudes below \<open>2\<^sup>5\<^sup>3\<close>).
\<close>

definition bucketStart :: "int \<Rightarrow> int \<Rightarrow> int option" where
  "bucketStart t bucketMs = (if bucketMs = 0 then None else Some ((t div bucketMs) * bucketMs))"

text \<open>A candle \<^verbatim>\<open>{ t, o, h, l, c }\<close>; \<open>c_t = None\<close> is the bucket start NaN.\<close>

record candle =
  c_t :: "int option"
  c_o :: jsnum
  c_h :: jsnum
  c_l :: jsnum
  c_c :: jsnum

text \<open>
  The aggregation loop of \<^verbatim>\<open>getCandles\<close> (\<^verbatim>\<open>part_002\<close>) and of the
  \<^verbatim>\<open>/api/candles\<close> handler (\<^verbatim>\<open>part_000\<close>). The \<^verbatim>\<open>Map\<close> is an association list in
  insertion order; \<^verbatim>\<open>map.set\<close> on a new key appends, and the update of the object found
  by \<^verbatim>\<open>map.get\<close> changes the entry in place: both are \<open>AList.update\<close>. A \<^verbatim>\<open>Map\<close>
  treats NaN as equal to itself as a key.
  \<^verbatim>\<open>
  for (const r of rows) {
    const b = bucketStart(r.ts, bucketMs);
    const v = r.value;
    if (!map.has(b)) map.set(b, { t: b, o: v, h: v, l: v, c: v });
    else {
      const x = map.get(b);
      x.h = Math.max(x.h, v);
      x.l = Math.min(x.l, v);
      x.c = v;
    }
  }
  return Array.from(map.values()).sort((a, b) => a.t - b.t);
  \<close>
\<close>

definition ohlc_step :: "int \<Rightarrow> (int option \<times> candle) list \<Rightarrow> row \<Rightarrow> (int option \<times> candle) list" where
  "ohlc_step bucketMs m r =
     (let b = bucketStart (fst r) bucketMs; v = snd r in
      case map_of m b of
        None \<Rightarrow> AList.update b \<lparr>c_t = b, c_o = v, c_h = v, c_l = v, c_c = v\<rparr> m
      | Some x \<Rightarrow> AList.update b (x\<lparr>c_h := js_max (c_h x) v, c_l := js_min (c_l x) v, c_c := v\<rparr>) m)"

text \<open>
  The final sort orders the candles by \<open>t\<close>. All keys are integers when the width is not
  zero, and there is at most one candle (of key NaN) when it is zero, so the comparator
  never meets a NaN beside an integer; on such lists the stable sort by key below is what
  \<^verbatim>\<open>sort((a, b) => a.t - b.t)\<close> computes.
\<close>

definition ohlc :: "int \<Rightarrow> row list \<Rightarrow> candle list" where
  "ohlc bucketMs rows = sort_key c_t (map snd (foldl (ohlc_step bucketMs) [] rows))"

text \<open>\<^verbatim>\<open>getCandles(symbol, interval, range)\<close> of \<^verbatim>\<open>part_002\<close>; \<open>now\<close> is \<^verbatim>\<open>nowMs()\<close>.\<close>

definition getCandles :: "db \<Rightarrow> int \<Rightarrow> string \<Rightarrow> string \<Rightarrow> string \<Rightarrow> candle list" where
  "getCandles d now smb interval rng =
     (let bucketMs = intervalToMs interval;
          endMs = now;
          start = endMs - parseRangeToMs rng;
          rows = selectTicks d smb start endMs
      in ohlc bucketMs rows)"

text \<open>
  The \<^verbatim>\<open>/api/candles\<close> handler of \<^verbatim>\<open>part_000\<close>. A query parameter is a string or
  absent.
  \<^verbatim>\<open>
  const symbol = String(req.query.symbol || "USDKRW").toUpperCase();
  const interval = String(req.query.interval || "30m");
  const range = String(req.query.range || "7d");
  const bucketMs = intervalToMs(interval);
  const end = nowMs();
  const start = end - parseRangeToMs(range);
  const rows = selectTicks.all(symbol, start, end);
  \<close>
\<close>

definition toUpperChar :: "char \<Rightarrow> char" where
  "toUpperChar ch =
     (case map_of (zip ''abcdefghijklmnopqrstuvwxyz'' ''ABCDEFGHIJKLMNOPQRSTUVWXYZ'') ch of
        Some u \<Rightarrow> u
      | None \<Rightarrow> ch)"

definition queryParam :: "string option \<Rightarrow> string \<Rightarrow> string" where
  "queryParam q dflt = (case q of None \<Rightarrow> dflt | Some x \<Rightarrow> orDefault x dflt)"


text \<open>
  \<^verbatim>\<open>getCandles\<close> of \<^verbatim>\<open>part_001\<close>: timestamps are stored in seconds, buckets are computed
  in milliseconds and the candle's time is the bucket start in seconds.
  \<^verbatim>\<open>
  const rows = db.prepare("SELECT ts, value FROM ticks WHERE symbol = ? AND ts >= ? ORDER BY ts ASC")
    .all(symbol, Math.floor(startTime / 1000));
  for (const { ts, value } of rows) {
    const bucket = bucketStart(ts * 1000, bucketMs);
    ...
  }
  return Array.from(buckets.entries())
    .map(([time, ohlc]) => ({ time: Math.floor(time / 1000), ...ohlc }))
    .sort((a, b) => a.time - b.time);
  \<close>
\<close>

definition getCandles_cd :: "db \<Rightarrow> int \<Rightarrow> string \<Rightarrow> string \<Rightarrow> string \<Rightarrow> candle list" where
  "getCandles_cd d now smb interval rng =
     (let rangeMs = parseRangeToMs_cd rng;
          bucketMs = intervalToMs_cd interval;
          startTime = now - rangeMs;
          rows = selectSince_cd d smb (startTime div 1000);
          buckets = foldl (\<lambda>m r. ohlc_step bucketMs m (fst r * 1000, snd r)) [] rows
      in sort_key c_t
           (map (\<lambda>(time, x). x\<lparr>c_t := map_option (\<lambda>k. k div 1000) time\<rparr>) buckets))"

subsection \<open>The collection cycle of \<^verbatim>\<open>part_000\<close> and \<^verbatim>\<open>part_002\<close>\<close>

text \<open>The snapshot \<^verbatim>\<open>state\<close>. Its status is one of the strings \<^verbatim>\<open>"BOOT"\<close>,
  \<^verbatim>\<open>"OK"\<close> and \<^verbatim>\<open>"WARN"\<close>; \<^verbatim>\<open>"WARN"\<close> is the degraded status.\<close>

datatype status = BOOT | OK | WARN

record state =
  asofKST :: "string option"
  status :: status
  usdkrw :: jsval
  eurkrw :: jsval
  dxy :: jsval
  kr10y :: jsval
  us10y :: jsval
  spread10y :: jsval
  errors :: "string list"

text \<open>The initial snapshot.\<close>

definition state0 :: state where
  "state0 = \<lparr>asofKST = None, status = BOOT, usdkrw = Null, eurkrw = Null, dxy = Null,
     kr10y = Null, us10y = Null, spread10y = Null, errors = []\<rparr>"

text \<open>
  \<^verbatim>\<open>+(x).toFixed(3)\<close>. \<^verbatim>\<open>toFixed(3)\<close> writes the decimal \<open>n / 1000\<close> with the integer \<open>n\<close>
  for which \<open>n / 1000\<close> is nearest to the magnitude of the double \<open>x\<close> (the larger \<open>n\<close> on
  a tie), with the sign of \<open>x\<close>; the unary plus parses that text to the nearest double. A
  magnitude of \<open>10\<^sup>2\<^sup>1\<close> or more is written in full and parses back to \<open>x\<close>; an infinity
  and NaN come back unchanged.
\<close>

fun toFixed3 :: "jsnum \<Rightarrow> jsnum" where
  "toFixed3 (Fin x) =
     (if \<bar>x\<bar> \<ge> 10 ^ 21 then Fin x
      else RN (sgn x * real_of_int \<lfloor>\<bar>x\<bar> * 1000 + 1 / 2\<rfloor> / 1000))"
| "toFixed3 NaN = NaN"
| "toFixed3 NegInf = NegInf"
| "toFixed3 PosInf = PosInf"

text \<open>
  Each crawler call either throws (\<open>Inl\<close> of the message) or returns (\<open>Inr\<close>).
  \<^verbatim>\<open>crawlNaverFx\<close> returns the pair \<^verbatim>\<open>{ usdkrw, eurkrw }\<close>, each a number or
  \<^verbatim>\<open>null\<close>; \<^verbatim>\<open>crawlNaverBond\<close> and \<^verbatim>\<open>crawlInvestingDXY\<close> return a number. The cycle
  threads the snapshot, the local \<^verbatim>\<open>errors\<close> and the local \<^verbatim>\<open>status\<close>.
\<close>

type_synonym cycle = "state \<times> string list \<times> status"

text \<open>
  \<^verbatim>\<open>
  try {
    const fx = await crawlNaverFx();
    if (typeof fx.usdkrw === "number") state.usdkrw = fx.usdkrw;
    if (typeof fx.eurkrw === "number") state.eurkrw = fx.eurkrw;
  } catch (e) { errors.push(String(e.message||e)); status = "WARN"; }
  \<close>
\<close>

definition try_fx :: "string + (jsval \<times> jsval) \<Rightarrow> cycle \<Rightarrow> cycle" where
  "try_fx r cy =
     (case cy of (st, errs, stat) \<Rightarrow>
        (case r of
           Inr (usd, eur) \<Rightarrow>
             (st\<lparr>usdkrw := (if isNumber usd then usd else usdkrw st),
                 eurkrw := (if isNumber eur then eur else eurkrw st)\<rparr>, errs, stat)
         | Inl e \<Rightarrow> (st, errs @ [e], WARN)))"

text \<open>
  \<^verbatim>\<open>
  try {
    state.kr10y = await crawlNaverBond(".../bond/KR10YT=RR");
  } catch (e) { errors.push(String(e.message||e)); status = "WARN"; }
  \<close>
  and the same for \<^verbatim>\<open>state.us10y\<close>.
\<close>

definition try_kr10y :: "string + jsnum \<Rightarrow> cycle \<Rightarrow> cycle" where
  "try_kr10y r cy =
     (case cy of (st, errs, stat) \<Rightarrow>
        (case r of
           Inr v \<Rightarrow> (st\<lparr>kr10y := Number v\<rparr>, errs, stat)
         | Inl e \<Rightarrow> (st, errs @ [e], WARN)))"

definition try_us10y :: "string + jsnum \<Rightarrow> cycle \<Rightarrow> cycle" where
  "try_us10y r cy =
     (case cy of (st, errs, stat) \<Rightarrow>
        (case r of
           Inr v \<Rightarrow> (st\<lparr>us10y := Number v\<rparr>, errs, stat)
         | Inl e \<Rightarrow> (st, errs @ [e], WARN)))"

text \<open>
  \<^verbatim>\<open>
  try {
    state.dxy = await crawlInvestingDXY();
  } catch (e) {
    errors.push(String(e.message||e));
    status = (status === "OK") ? "WARN" : status;
  }
  \<close>
\<close>

definition try_dxy :: "string + jsnum \<Rightarrow> cycle \<Rightarrow> cycle" where
  "try_dxy r cy =
     (case cy of (st, errs, stat) \<Rightarrow>
        (case r of
           Inr v \<Rightarrow> (st\<lparr>dxy := Number v\<rparr>, errs, stat)
         | Inl e \<Rightarrow> (st, errs @ [e], (if stat = OK then WARN else stat))))"

text \<open>
  \<^verbatim>\<open>
  if (typeof state.us10y === "number" && typeof state.kr10y === "number") {
    state.spread10y = +(state.us10y - state.kr10y).toFixed(3);
  }
  \<close>
\<close>

definition compute_spread :: "state \<Rightarrow> state" where
  "compute_spread st =
     (case (us10y st, kr10y st) of
        (Number a, Number b) \<Rightarrow> st\<lparr>spread10y := Number (toFixed3 (js_sub a b))\<rparr>
      | _ \<Rightarrow> st)"

text \<open>The object handed to \<^verbatim>\<open>saveTicks\<close>, as its entries in key order.\<close>

definition tick_entries :: "state \<Rightarrow> (string \<times> jsval) list" where
  "tick_entries st =
     [(''USDKRW'', usdkrw st), (''EURKRW'', eurkrw st), (''DXY'', dxy st),
      (''KR10Y'', kr10y st), (''US10Y'', us10y st), (''SPREAD10Y'', spread10y st)]"

text \<open>
  \<^verbatim>\<open>refresh()\<close>. The four crawler outcomes, the clock \<^verbatim>\<open>nowMs()\<close> and the string
  \<^verbatim>\<open>kstNowString()\<close> are the inputs of a cycle; the snapshot and the store are its state.
  \<^verbatim>\<open>
  const errors = [];
  let status = "OK";
  ... the four try blocks, the spread ...
  const ts = nowMs();
  state.asofKST = kstNowString();
  state.status = status;
  state.errors = errors.slice(0, 6);
  saveTicks(ts, { USDKRW: state.usdkrw, EURKRW: state.eurkrw, DXY: state.dxy,
                  KR10Y: state.kr10y, US10Y: state.us10y, SPREAD10Y: state.spread10y });
  \<close>
\<close>

definition refresh ::
  "string + (jsval \<times> jsval) \<Rightarrow> string + jsnum \<Rightarrow> string + jsnum \<Rightarrow> string + jsnum \<Rightarrow>
   int \<Rightarrow> string \<Rightarrow> state \<times> db \<Rightarrow> state \<times> db" where
  "refresh fx kr us dx now asof sd =
     (case sd of (st0, d) \<Rightarrow>
        (case try_dxy dx (try_us10y us (try_kr10y kr (try_fx fx (st0, [], OK)))) of
           (st1, errs, stat) \<Rightarrow>
             (let st2 = compute_spread st1;
                  t = now;
                  st3 = st2\<lparr>asofKST := Some asof, status := stat, errors := take 6 errs\<rparr>
              in (st3, saveTicks t (tick_entries st3) d))))"

subsection \<open>The collection cycle of \<^verbatim>\<open>part_001\<close>\<close>

text \<open>The snapshot of \<^verbatim>\<open>part_001\<close>. The three messages pushed to \<^verbatim>\<open>state.errors\<close> are
  fixed literals, one per crawler.\<close>

datatype err_cd = FxFailed | BondFailed | DxyFailed

record state_cd =
  USDKRW :: jsval
  EURKRW :: jsval
  DXY :: jsval
  KR10Y :: jsval
  US10Y :: jsval
  spread10y_cd :: jsval
  asofKST_cd :: string
  errors_cd :: "err_cd list"

text \<open>\<^verbatim>\<open>!isNaN(x)\<close> on a number.\<close>

definition notNaN :: "jsnum \<Rightarrow> bool" where
  "notNaN x = (x \<noteq> NaN)"

text \<open>
  The characters of \<^verbatim>\<open>(x).toFixed(2)\<close>: for a finite double \<open>x\<close> below \<open>10\<^sup>2\<^sup>1\<close> in
  magnitude, the decimal \<open>n / 100\<close> with the integer \<open>n\<close> for which \<open>n / 100\<close> is nearest to
  the magnitude of \<open>x\<close> (the larger \<open>n\<close> on a tie), after a minus sign when \<open>x\<close> is
  negative. From \<open>10\<^sup>2\<^sup>1\<close> on the text is in exponential notation, which is not rendered
  here (\<open>None\<close>).
\<close>

fun showNat :: "nat \<Rightarrow> string" where
  "showNat n =
     (if n < 10 then [''0123456789'' ! n] else showNat (n div 10) @ [''0123456789'' ! (n mod 10)])"

definition toFixed2_text :: "jsnum \<Rightarrow> string option" where
  "toFixed2_text x =
     (case x of
        NaN \<Rightarrow> Some ''NaN''
      | PosInf \<Rightarrow> Some ''Infinity''
      | NegInf \<Rightarrow> Some ''-Infinity''
      | Fin r \<Rightarrow>
          (if \<bar>r\<bar> \<ge> 10 ^ 21 then None
           else (let n = nat \<lfloor>\<bar>r\<bar> * 100 + 1 / 2\<rfloor> in
                 Some ((if r < 0 then ''-'' else []) @ showNat (n div 100) @ ''.''
                   @ [''0123456789'' ! ((n mod 100) div 10), ''0123456789'' ! (n mod 10)]))))"

text \<open>
  \<^verbatim>\<open>crawlNaverBond()\<close> of \<^verbatim>\<open>part_001\<close>. The outcome of the two page fetches is \<open>Inl\<close>
  when one of them throws, and otherwise the two numbers that \<^verbatim>\<open>parseFloat\<close> returns
  (NaN when the text is not a number). The function returns the object it hands to
  \<^verbatim>\<open>collectData\<close>.
  \<^verbatim>\<open>
  if (!isNaN(krVal)) state.KR10Y = krVal;
  if (!isNaN(usVal)) state.US10Y = usVal;
  if (!isNaN(krVal) && !isNaN(usVal)) {
    state.spread10y = (usVal - krVal).toFixed(2);
  }
  return { KR10Y: krVal, US10Y: usVal };
  ... catch (err) { state.errors.push(...); return { KR10Y: null, US10Y: null }; }
  \<close>
\<close>

definition crawlNaverBond_cd ::
  "unit + (jsnum \<times> jsnum) \<Rightarrow> state_cd \<Rightarrow> state_cd \<times> (string \<rightharpoonup> jsval)" where
  "crawlNaverBond_cd r st =
     (case r of
        Inr (krVal, usVal) \<Rightarrow>
          (let st1 = (if notNaN krVal then st\<lparr>KR10Y := Number krVal\<rparr> else st);
               st2 = (if notNaN usVal then st1\<lparr>US10Y := Number usVal\<rparr> else st1);
               st3 = (if notNaN krVal \<and> notNaN usVal
                      then st2\<lparr>spread10y_cd := ToFixed2 (js_sub usVal krVal)\<rparr> else st2)
           in (st3, [''KR10Y'' \<mapsto> Number krVal, ''US10Y'' \<mapsto> Number usVal]))
      | Inl _ \<Rightarrow>
          (st\<lparr>errors_cd := errors_cd st @ [BondFailed]\<rparr>,
           [''KR10Y'' \<mapsto> Null, ''US10Y'' \<mapsto> Null]))"

text \<open>\<^verbatim>\<open>crawlNaverFx()\<close> of \<^verbatim>\<open>part_001\<close>, of the same shape.\<close>

definition crawlNaverFx_cd ::
  "unit + (jsnum \<times> jsnum) \<Rightarrow> state_cd \<Rightarrow> state_cd \<times> (string \<rightharpoonup> jsval)" where
  "crawlNaverFx_cd r st =
     (case r of
        Inr (usdVal, eurVal) \<Rightarrow>
          (let st1 = (if notNaN usdVal then st\<lparr>USDKRW := Number usdVal\<rparr> else st);
               st2 = (if notNaN eurVal then st1\<lparr>EURKRW := Number eurVal\<rparr> else st1)
           in (st2, [''USDKRW'' \<mapsto> Number usdVal, ''EURKRW'' \<mapsto> Number eurVal]))
      | Inl _ \<Rightarrow>
          (st\<lparr>errors_cd := errors_cd st @ [FxFailed]\<rparr>,
           [''USDKRW'' \<mapsto> Null, ''EURKRW'' \<mapsto> Null]))"

text \<open>
  \<^verbatim>\<open>crawlInvestingDXY()\<close> of \<^verbatim>\<open>part_001\<close>: the number parsed, or \<^verbatim>\<open>null\<close> when the fetch
  throws or the text parses to NaN.
\<close>

definition crawlInvestingDXY_cd :: "unit + jsnum \<Rightarrow> state_cd \<Rightarrow> state_cd \<times> jsval" where
  "crawlInvestingDXY_cd r st =
     (case r of
        Inr dx \<Rightarrow>
          (if notNaN dx then (st\<lparr>DXY := Number dx\<rparr>, Number dx)
           else (st\<lparr>errors_cd := errors_cd st @ [DxyFailed]\<rparr>, Null))
      | Inl _ \<Rightarrow> (st\<lparr>errors_cd := errors_cd st @ [DxyFailed]\<rparr>, Null))"

text \<open>
  \<^verbatim>\<open>collectData()\<close>. The three crawlers run under \<^verbatim>\<open>Promise.all\<close>; they write disjoint
  slots, and here they run one after the other. In the program the order of the entries of
  \<^verbatim>\<open>state.errors\<close> is the order in which the crawlers fail, which depends on timing; here
  it is the order FX, bond, index. No statement below is about \<open>errors_cd\<close>.
  \<^verbatim>\<open>
  state.errors = [];
  const ts = Math.floor(nowMs() / 1000);
  const [fx, bond, dxy] = await Promise.all([crawlNaverFx(), crawlNaverBond(), crawlInvestingDXY()]);
  state.asofKST = kstNowString();
  saveTicks(ts, { ...fx, ...bond, DXY: dxy });
  \<close>
\<close>

definition collectData ::
  "unit + (jsnum \<times> jsnum) \<Rightarrow> unit + (jsnum \<times> jsnum) \<Rightarrow> unit + jsnum \<Rightarrow>
   int \<Rightarrow> string \<Rightarrow> state_cd \<times> db \<Rightarrow> state_cd \<times> db" where
  "collectData fxr bondr dxr now asof sd =
     (case sd of (st0, d) \<Rightarrow>
        (let t = now div 1000 in
         case crawlNaverFx_cd fxr (st0\<lparr>errors_cd := []\<rparr>) of (st1, fx) \<Rightarrow>
         case crawlNaverBond_cd bondr st1 of (st2, bond) \<Rightarrow>
         case crawlInvestingDXY_cd dxr st2 of (st3, dx) \<Rightarrow>
           (st3\<lparr>asofKST_cd := asof\<rparr>,
            saveTicks_cd t ((fx ++ bond)(''DXY'' \<mapsto> dx)) d)))"

subsection \<open>The analysis endpoint of \<^verbatim>\<open>part_002\<close>: cache and fallback\<close>

text \<open>
  \<^verbatim>\<open>const ANALYSIS_TTL_MS = 2 * 60 * 60 * 1000;\<close>
  \<^verbatim>\<open>const analysisCache = new Map(); // key: symbol, value: { ts, payload }\<close>
  The payload is \<^verbatim>\<open>{ asofKST, symbol, inputs, analysis }\<close>; the inputs (snapshot, candle
  summaries, headlines) are built outside the guard and are a parameter \<open>'i\<close> here.
\<close>

definition ANALYSIS_TTL_MS :: int where
  "ANALYSIS_TTL_MS = 2 * 60 * 60 * 1000"

record 'i payload =
  p_asofKST :: string
  p_symbol :: string
  p_inputs :: 'i
  p_analysis :: string

record 'i entry =
  e_ts :: int
  e_payload :: "'i payload"

type_synonym 'i cache = "string \<rightharpoonup> 'i entry"

text \<open>
  The responses of the handler, all sent with \<^verbatim>\<open>res.status(200)\<close>:
  \<^item> \<open>CacheHit p age\<close>: \<^verbatim>\<open>{ ...cached.payload, cached: true, cacheAgeSec: age }\<close>;
  \<^item> \<open>NoKey asof smb\<close>: \<^verbatim>\<open>{ asofKST, symbol, analysis: <notice: no API key>, degraded: true }\<close>;
  \<^item> \<open>Fresh p\<close>: \<^verbatim>\<open>{ ...payload, cached: false }\<close>;
  \<^item> \<open>StaleCached p\<close>: \<^verbatim>\<open>{ ...cached2.payload, cached: true, degraded: true, warning:
    "OpenAI rate-limited; serving cached analysis (2h TTL)." }\<close>;
  \<^item> \<open>RateLimitedNoCache asof smb\<close>: \<^verbatim>\<open>{ asofKST, symbol, analysis: <notice: rate limit>,
    degraded: true, warning: "OpenAI rate-limited; no cache available yet." }\<close>;
  \<^item> \<open>Failed asof smb msg\<close>: \<^verbatim>\<open>{ asofKST, symbol, analysis: <notice: failure>,
    degraded: true, error: msg }\<close>.
\<close>

datatype 'i response =
    CacheHit "'i payload" int
  | NoKey string string
  | Fresh "'i payload"
  | StaleCached "'i payload"
  | RateLimitedNoCache string string
  | Failed string string string

fun http :: "'i response \<Rightarrow> nat" where
  "http (CacheHit p age) = 200"
| "http (NoKey a s) = 200"
| "http (Fresh p) = 200"
| "http (StaleCached p) = 200"
| "http (RateLimitedNoCache a s) = 200"
| "http (Failed a s m) = 200"

text \<open>The field \<^verbatim>\<open>degraded: true\<close> of the body.\<close>

fun degraded :: "'i response \<Rightarrow> bool" where
  "degraded (CacheHit p age) = False"
| "degraded (NoKey a s) = True"
| "degraded (Fresh p) = False"
| "degraded (StaleCached p) = True"
| "degraded (RateLimitedNoCache a s) = True"
| "degraded (Failed a s m) = True"

text \<open>\<^verbatim>\<open>s.includes(sub)\<close> and \<^verbatim>\<open>s.toLowerCase()\<close> (on ASCII letters).\<close>

fun str_includes :: "string \<Rightarrow> string \<Rightarrow> bool" where
  "str_includes [] sub = (sub = [])"
| "str_includes (x # xs) sub = (take (length sub) (x # xs) = sub \<or> str_includes xs sub)"

definition toLowerChar :: "char \<Rightarrow> char" where
  "toLowerChar ch =
     (case map_of (zip ''ABCDEFGHIJKLMNOPQRSTUVWXYZ'' ''abcdefghijklmnopqrstuvwxyz'') ch of
        Some u \<Rightarrow> u
      | None \<Rightarrow> ch)"

text \<open>
  \<^verbatim>\<open>
  const msg = String(e?.message || e);
  const isRateLimit = msg.includes("429") || msg.toLowerCase().includes("rate limit");
  \<close>
\<close>

definition isRateLimit :: "string \<Rightarrow> bool" where
  "isRateLimit msg = (str_includes msg ''429'' \<or> str_includes (map toLowerChar msg) ''rate limit'')"

text \<open>
  What a request meets outside the guard: whether \<^verbatim>\<open>process.env.OPENAI_API_KEY\<close> is set,
  the outcome of gathering the inputs (the headline fetch may throw; \<open>Inl\<close> of the
  message), the outcome of \<^verbatim>\<open>client.chat.completions.create\<close> (\<open>Inl\<close> of the message
  of what it throws, \<open>Inr\<close> of the text), and \<^verbatim>\<open>kstNowString()\<close>.
\<close>

record 'i env =
  apiKey :: bool
  gather :: "string + 'i"
  completion :: "string + string"
  kst :: string

text \<open>
  The \<^verbatim>\<open>catch\<close> block:
  \<^verbatim>\<open>
  if (isRateLimit) {
    const cached2 = analysisCache.get(symbol);
    if (cached2) return res.status(200).json({ ...cached2.payload, cached: true, degraded: true, warning });
    return res.status(200).json({ asofKST, symbol, analysis, degraded: true, warning });
  }
  return res.status(200).json({ asofKST, symbol, analysis, degraded: true, error: msg });
  \<close>
\<close>

definition on_error :: "'i env \<Rightarrow> string \<Rightarrow> 'i cache \<Rightarrow> string \<Rightarrow> 'i response" where
  "on_error ev smb ch msg =
     (if isRateLimit msg
      then (case ch smb of
              Some cached2 \<Rightarrow> StaleCached (e_payload cached2)
            | None \<Rightarrow> RateLimitedNoCache (kst ev) smb)
      else Failed (kst ev) smb msg)"

text \<open>
  The handler of \<^verbatim>\<open>GET /api/analysis\<close>. It returns the response, the cache afterwards and
  the number of calls of the generation backend that the request made.
  \<^verbatim>\<open>
  const symbol = String(req.query.symbol || "USDKRW").toUpperCase();
  const now = Date.now();
  const cached = analysisCache.get(symbol);
  if (cached && (now - cached.ts) < ANALYSIS_TTL_MS) {
    return res.status(200).json({ ...cached.payload, cached: true,
                                  cacheAgeSec: Math.floor((now - cached.ts) / 1000) });
  }
  try {
    const apiKey = process.env.OPENAI_API_KEY;
    if (!apiKey) { return res.status(200).json({ ..., degraded: true }); }
    ... inputs ...
    const completion = await client.chat.completions.create({ ... });
    const text = completion?.choices?.[0]?.message?.content?.trim() || "";
    const payload = { asofKST: kstNowString(), symbol, inputs: { ... }, analysis: text };
    analysisCache.set(symbol, { ts: now, payload });
    return res.status(200).json({ ...payload, cached: false });
  } catch (e) { ... }
  \<close>
\<close>

definition generate ::
  "'i env \<Rightarrow> string \<Rightarrow> int \<Rightarrow> 'i cache \<Rightarrow> 'i response \<times> 'i cache \<times> nat" where
  "generate ev smb now ch =
     (if \<not> apiKey ev then (NoKey (kst ev) smb, ch, 0)
      else (case gather ev of
              Inl msg \<Rightarrow> (on_error ev smb ch msg, ch, 0)
            | Inr inputs \<Rightarrow>
                (case completion ev of
                   Inl msg \<Rightarrow> (on_error ev smb ch msg, ch, 1)
                 | Inr txt \<Rightarrow>
                     (let payload = \<lparr>p_asofKST = kst ev, p_symbol = smb, p_inputs = inputs,
                                     p_analysis = txt\<rparr>
                      in (Fresh payload, ch(smb \<mapsto> \<lparr>e_ts = now, e_payload = payload\<rparr>), 1)))))"

definition fresh_hit :: "'i cache \<Rightarrow> string \<Rightarrow> int \<Rightarrow> bool" where
  "fresh_hit ch smb now = (case ch smb of None \<Rightarrow> False | Some cached \<Rightarrow> now - e_ts cached < ANALYSIS_TTL_MS)"

definition api_analysis ::
  "'i env \<Rightarrow> string option \<Rightarrow> int \<Rightarrow> 'i cache \<Rightarrow> 'i response \<times> 'i cache \<times> nat" where
  "api_analysis ev q_symbol now ch =
     (let smb = map toUpperChar (queryParam q_symbol ''USDKRW'') in
      case ch smb of
        Some cached \<Rightarrow>
          (if now - e_ts cached < ANALYSIS_TTL_MS
           then (CacheHit (e_payload cached) ((now - e_ts cached) div 1000), ch, 0)
           else generate ev smb now ch)
      | None \<Rightarrow> generate ev smb now ch)"

subsection \<open>The analysis endpoint of \<^verbatim>\<open>part_001\<close>: cache and global cooldown\<close>

text \<open>
  \<^verbatim>\<open>
  const ANALYSIS_TTL_MS = 12 * 60 * 60 * 1000; // 12h
  const ANALYSIS_COOLDOWN_MS = 5 * 60 * 1000;  // 5min
  const analysisCache = new Map();
  let lastAnalysisTime = 0;
  \<close>
  A cache entry is \<^verbatim>\<open>{ data: result, timestamp: now }\<close> under the key
  \<^verbatim>\<open>`analysis_${symbol}`\<close>; the result is \<^verbatim>\<open>{ symbol, analysis, asofKST, cachedUntil }\<close>,
  with \<open>cachedUntil\<close> the instant \<open>now + ANALYSIS_TTL_MS\<close>.
\<close>

definition ANALYSIS_TTL_MS_cd :: int where
  "ANALYSIS_TTL_MS_cd = 12 * 60 * 60 * 1000"

definition ANALYSIS_COOLDOWN_MS :: int where
  "ANALYSIS_COOLDOWN_MS = 5 * 60 * 1000"

record result_cd =
  res_symbol :: string
  res_analysis :: string
  res_asofKST :: string
  res_cachedUntil :: int

record entry_cd =
  data :: result_cd
  timestamp :: int

record guard_cd =
  analysisCache :: "string \<rightharpoonup> entry_cd"
  lastAnalysisTime :: int

definition guard0 :: guard_cd where
  "guard0 = \<lparr>analysisCache = Map.empty, lastAnalysisTime = 0\<rparr>"

text \<open>
  The responses of the handler:
  \<^item> \<open>CachedData r\<close>: \<^verbatim>\<open>res.json(cached.data)\<close>, status 200;
  \<^item> \<open>CooldownWait w\<close>: \<^verbatim>\<open>res.status(429).json({ error: <wait w seconds>, retryAfter: w })\<close>;
  \<^item> \<open>NoClient\<close>: \<^verbatim>\<open>res.status(503).json({ error: <no API key> })\<close>;
  \<^item> \<open>Generated r\<close>: \<^verbatim>\<open>res.json(result)\<close>, status 200;
  \<^item> \<open>UpstreamRateLimited\<close>: \<^verbatim>\<open>res.status(429).json({ error: <quota exceeded>, retryAfter: 300 })\<close>;
  \<^item> \<open>GenerationFailed\<close>: \<^verbatim>\<open>res.status(500).json({ error: <generation failed> })\<close>.
\<close>

datatype response_cd =
    CachedData result_cd
  | CooldownWait int
  | NoClient
  | Generated result_cd
  | UpstreamRateLimited
  | GenerationFailed

fun http_cd :: "response_cd \<Rightarrow> nat" where
  "http_cd (CachedData r) = 200"
| "http_cd (CooldownWait w) = 429"
| "http_cd NoClient = 503"
| "http_cd (Generated r) = 200"
| "http_cd UpstreamRateLimited = 429"
| "http_cd GenerationFailed = 500"

text \<open>
  What a request meets outside the guard: whether the client \<^verbatim>\<open>openai\<close> exists (the API key
  was set at start), the outcome of \<^verbatim>\<open>openai.chat.completions.create\<close> (\<open>Inl\<close> of the
  \<^verbatim>\<open>status\<close> property of what it throws, if any; \<open>Inr\<close> of the text), and
  \<^verbatim>\<open>kstNowString()\<close>.
\<close>

record env_cd =
  openai :: bool
  completion_cd :: "nat option + string"
  kst_cd :: string

text \<open>\<^verbatim>\<open>Math.ceil(x / 1000)\<close> on an integer \<open>x\<close>.\<close>

definition ceil1000 :: "int \<Rightarrow> int" where
  "ceil1000 x = - ((- x) div 1000)"

text \<open>
  The handler of \<^verbatim>\<open>GET /api/analysis\<close>. It returns the response, the guard's state
  afterwards and the number of calls of the generation backend that the request made.
  \<^verbatim>\<open>
  const symbol = req.query.symbol || "USDKRW";
  const cacheKey = `analysis_${symbol}`;
  const now = Date.now();
  const cached = analysisCache.get(cacheKey);
  if (cached && now - cached.timestamp < ANALYSIS_TTL_MS) {
    return res.json(cached.data);
  }
  if (now - lastAnalysisTime < ANALYSIS_COOLDOWN_MS) {
    const waitSec = Math.ceil((ANALYSIS_COOLDOWN_MS - (now - lastAnalysisTime)) / 1000);
    return res.status(429).json({ error: ..., retryAfter: waitSec });
  }
  if (!openai) {
    return res.status(503).json({ error: ... });
  }
  try {
    lastAnalysisTime = now;
    ...
    const completion = await openai.chat.completions.create({ ... });
    const analysis = completion.choices[0].message.content.trim();
    const result = { symbol, analysis, asofKST: kstNowString(),
                     cachedUntil: new Date(now + ANALYSIS_TTL_MS).toISOString() };
    analysisCache.set(cacheKey, { data: result, timestamp: now });
    res.json(result);
  } catch (err) {
    if (err.status === 429) {
      return res.status(429).json({ error: ..., retryAfter: 300 });
    }
    res.status(500).json({ error: ... });
  }
  \<close>
  The check of the cooldown and the assignment \<^verbatim>\<open>lastAnalysisTime = now\<close> run without an
  \<^verbatim>\<open>await\<close> between them, so they are one step.
\<close>

definition fresh_hit_cd :: "guard_cd \<Rightarrow> string \<Rightarrow> int \<Rightarrow> bool" where
  "fresh_hit_cd g cacheKey now =
     (case analysisCache g cacheKey of
        None \<Rightarrow> False
      | Some cached \<Rightarrow> now - timestamp cached < ANALYSIS_TTL_MS_cd)"

definition generate_cd ::
  "env_cd \<Rightarrow> string \<Rightarrow> string \<Rightarrow> int \<Rightarrow> guard_cd \<Rightarrow> response_cd \<times> guard_cd \<times> nat" where
  "generate_cd ev smb cacheKey now g =
     (if now - lastAnalysisTime g < ANALYSIS_COOLDOWN_MS
      then (CooldownWait (ceil1000 (ANALYSIS_COOLDOWN_MS - (now - lastAnalysisTime g))), g, 0)
      else if \<not> openai ev then (NoClient, g, 0)
      else (let g1 = g\<lparr>lastAnalysisTime := now\<rparr> in
            case completion_cd ev of
              Inr txt \<Rightarrow>
                (let result = \<lparr>res_symbol = smb, res_analysis = txt, res_asofKST = kst_cd ev,
                                res_cachedUntil = now + ANALYSIS_TTL_MS_cd\<rparr>
                 in (Generated result,
                     g1\<lparr>analysisCache := (analysisCache g1)(cacheKey \<mapsto> \<lparr>data = result, timestamp = now\<rparr>)\<rparr>,
                     1))
            | Inl st \<Rightarrow>
                (if st = Some 429 then (UpstreamRateLimited, g1, 1)
                 else (GenerationFailed, g1, 1))))"

definition api_analysis_cd ::
  "env_cd \<Rightarrow> string option \<Rightarrow> int \<Rightarrow> guard_cd \<Rightarrow> response_cd \<times> guard_cd \<times> nat" where
  "api_analysis_cd ev q_symbol now g =
     (let smb = queryParam q_symbol ''USDKRW'';
          cacheKey = ''analysis_'' @ smb in
      case analysisCache g cacheKey of
        Some cached \<Rightarrow>
          (if now - timestamp cached < ANALYSIS_TTL_MS_cd
           then (CachedData (data cached), g, 0)
           else generate_cd ev smb cacheKey now g)
      | None \<Rightarrow> generate_cd ev smb cacheKey now g)"

text \<open>
  A run of the server of \<^verbatim>\<open>part_001\<close> over a sequence of requests
  \<open>(environment, symbol parameter, now)\<close>: the instants at which the generation backend
  was called, in order.
\<close>

fun call_times_cd :: "(env_cd \<times> string option \<times> int) list \<Rightarrow> guard_cd \<Rightarrow> int list" where
  "call_times_cd [] g = []"
| "call_times_cd ((ev, q, now) # reqs) g =
     (case api_analysis_cd ev q now g of
        (r, g', n) \<Rightarrow> (if n = 0 then [] else [now]) @ call_times_cd reqs g')"

text \<open>The same for the server of \<^verbatim>\<open>part_002\<close>.\<close>

fun call_times :: "('i env \<times> string option \<times> int) list \<Rightarrow> 'i cache \<Rightarrow> int list" where
  "call_times [] ch = []"
| "call_times ((ev, q, now) # reqs) ch =
     (case api_analysis ev q now ch of
        (r, ch', n) \<Rightarrow> (if n = 0 then [] else [now]) @ call_times reqs ch')"

subsection \<open>Auxiliary notions for the statements\<close>


text \<open>
  The rows of symbol \<open>s\<close> that an operation appended, given the store before and after;
  and the rows that a snapshot slot contributes to a batch: one row when the slot holds a
  finite number, none otherwise.
\<close>

definition written :: "string \<Rightarrow> db \<Rightarrow> db \<Rightarrow> tick list" where
  "written s d d' = filter (\<lambda>k. symbol k = s) (drop (length d) d')"

definition slot_tick :: "int \<Rightarrow> string \<Rightarrow> jsval \<Rightarrow> tick list" where
  "slot_tick t s v =
     (case v of
        Number n \<Rightarrow> (if isFinite n then [\<lparr>ts = t, symbol = s, val = n\<rparr>] else [])
      | _ \<Rightarrow> [])"

text \<open>
  A sequence of batch saves of \<^verbatim>\<open>part_000\<close> and \<^verbatim>\<open>part_002\<close>, each a timestamp with
  the object handed to \<^verbatim>\<open>saveTicks\<close>; and the object whose entries are the finite numbers
  \<open>es\<close>.
\<close>

fun appendBatches :: "(int \<times> (string \<times> jsval) list) list \<Rightarrow> db \<Rightarrow> db" where
  "appendBatches [] d = d"
| "appendBatches ((t, pairs) # bs) d = appendBatches bs (saveTicks t pairs d)"

definition finite_batch :: "(string \<times> real) list \<Rightarrow> (string \<times> jsval) list" where
  "finite_batch es = map (\<lambda>(k, x). (k, Number (Fin x))) es"

section \<open>Properties\<close>

subsection \<open>The store holds what the batch save admits\<close>

text \<open>
  \<^verbatim>\<open>saveTicks\<close> of \<^verbatim>\<open>part_000\<close> and \<^verbatim>\<open>part_002\<close> only appends, and every row it appends
  carries the cycle's timestamp and a finite value taken from the batch. Hence a store
  that holds finite values only keeps doing so, and an entry that is not a finite number
  changes nothing.
\<close>

lemma saveTicks_append: "\<exists>new. saveTicks t pairs d = d @ new \<and> (\<forall>k\<in>set new. isFinite (val k) \<and> ts k = t \<and> (\<exists>v. (symbol k, Number v) \<in> set pairs \<and> val k = v))"
proof (induction t pairs d rule: saveTicks.induct)
  case (1 t d)
  then show ?case by simp
next
  case (2 t s v pairs d)
  show ?case
  proof (cases "isFinite v")
    case True
    with 2 obtain new where "saveTicks t pairs (insertTick t s v d) = insertTick t s v d @ new"
      and "\<forall>k\<in>set new. isFinite (val k) \<and> ts k = t \<and> (\<exists>v. (symbol k, Number v) \<in> set pairs \<and> val k = v)" by blast
    with True show ?thesis by (auto simp: insertTick_def)
  next
    case False
    with 2 show ?thesis by auto
  qed
next
  case (3 t s pairs d)
  then show ?case by auto
next
  case (4 t s x pairs d)
  then show ?case by auto
next
  case (5 t s x pairs d)
  then show ?case by auto
qed

lemma saveTicks_finite_invariant:
  "\<forall>k\<in>set d. isFinite (val k) \<Longrightarrow> \<forall>k\<in>set (saveTicks t pairs d). isFinite (val k)"
  using saveTicks_append [of t pairs d] by auto

lemma saveTicks_nonfinite_noop:
  "\<not> isFinite v \<Longrightarrow> saveTicks t ((s, Number v) # pairs) d = saveTicks t pairs d"
  by simp

text \<open>
  C4. Claim: the store never contains a non-finite value; a batch entry that is NaN or
  infinite is a no-op. \<^verbatim>\<open>saveTicks\<close> of \<^verbatim>\<open>part_000\<close> and \<^verbatim>\<open>part_002\<close> satisfies this
  (\<open>saveTicks_finite_invariant\<close>, \<open>saveTicks_nonfinite_noop\<close>). \<^verbatim>\<open>saveTicks\<close> of
  \<^verbatim>\<open>part_001\<close> tests truthiness instead of finiteness, and an infinity is truthy: the
  batch \<^verbatim>\<open>{ USDKRW: Infinity }\<close> is written to the store and comes back from the range
  query; a cycle of \<^verbatim>\<open>collectData\<close> in which \<^verbatim>\<open>parseFloat\<close> returns \<^verbatim>\<open>Infinity\<close> for
  the dollar rate stores it.
\<close>

theorem C4_infinity_persisted_cd:
  "saveTicks_cd 1700000000 [''USDKRW'' \<mapsto> Number PosInf] [] =
     [\<lparr>ts = 1700000000, symbol = ''USDKRW'', val = PosInf\<rparr>]
   \<and> selectSince_cd (saveTicks_cd 1700000000 [''USDKRW'' \<mapsto> Number PosInf] []) ''USDKRW'' 0
       = [(1700000000, PosInf)]
   \<and> snd (collectData (Inr (PosInf, Fin 1400)) (Inl ()) (Inl ()) 1700000000000 ''asof''
        (\<lparr>USDKRW = Null, EURKRW = Null, DXY = Null, KR10Y = Null, US10Y = Null, spread10y_cd = Null,
          asofKST_cd = ''boot'', errors_cd = []\<rparr>, []))
       = [\<lparr>ts = 1700000000, symbol = ''USDKRW'', val = PosInf\<rparr>,
          \<lparr>ts = 1700000000, symbol = ''EURKRW'', val = Fin 1400\<rparr>]"
  by (simp add: saveTicks_cd_def rows_cd_def push_cd_def field_def selectSince_cd_def
      collectData_def crawlNaverFx_cd_def crawlNaverBond_cd_def crawlInvestingDXY_cd_def
      Let_def notNaN_def map_add_def)

subsection \<open>Range queries\<close>

text \<open>
  The query returns the store's rows of the symbol within the closed interval, ascending
  by timestamp, each as often as it is stored. In \<^verbatim>\<open>part_000\<close> and \<^verbatim>\<open>part_002\<close> a batch of
  finite values appended by \<^verbatim>\<open>saveTicks\<close> adds exactly its entries of that symbol to the
  result, when the batch's timestamp lies in the interval; so after any sequence of such
  batches the query returns exactly the ticks appended for the symbol within the interval,
  none missing and duplicates retained. The query of \<^verbatim>\<open>part_001\<close>, which has no upper
  bound, returns the same rows as the closed query whenever the interval covers the
  timestamps of the symbol's rows from above.
\<close>

lemma selectTicks_sorted_mset:
  "sorted (map fst (selectTicks d s a b))
   \<and> mset (selectTicks d s a b) =
       mset (map (\<lambda>k. (ts k, val k)) (filter (\<lambda>k. symbol k = s \<and> a \<le> ts k \<and> ts k \<le> b) d))"
  by (simp add: selectTicks_def)

lemma selectTicks_append:
  "mset (selectTicks (d @ new) s a b) = mset (selectTicks d s a b) + mset (selectTicks new s a b)"
  by (simp add: selectTicks_def)

lemma saveTicks_finite_batch:
  "saveTicks t (finite_batch es) d = d @ map (\<lambda>(k, x). \<lparr>ts = t, symbol = k, val = Fin x\<rparr>) es"
  by (induction es arbitrary: d) (auto simp: finite_batch_def insertTick_def)

lemma selectTicks_batch:
  "mset (selectTicks (map (\<lambda>(k, x). \<lparr>ts = t, symbol = k, val = Fin x\<rparr>) es) s a b)
     = mset [(t, Fin x). (k, x) \<leftarrow> es, k = s \<and> a \<le> t \<and> t \<le> b]"
  by (induction es) (auto simp: selectTicks_def)

lemma saveTicks_query_roundtrip:
  "sorted (map fst (selectTicks (saveTicks t (finite_batch es) d) s a b))
   \<and> mset (selectTicks (saveTicks t (finite_batch es) d) s a b)
       = mset (selectTicks d s a b) + mset [(t, Fin x). (k, x) \<leftarrow> es, k = s \<and> a \<le> t \<and> t \<le> b]"
  using selectTicks_sorted_mset [of "saveTicks t (finite_batch es) d" s a b]
  by (simp add: saveTicks_finite_batch selectTicks_append selectTicks_batch)

lemma appendBatches_query_roundtrip:
  "sorted (map fst (selectTicks (appendBatches (map (\<lambda>(t, es). (t, finite_batch es)) bs) d) s a b))
   \<and> mset (selectTicks (appendBatches (map (\<lambda>(t, es). (t, finite_batch es)) bs) d) s a b)
       = mset (selectTicks d s a b)
         + mset [(t, Fin x). (t, es) \<leftarrow> bs, (k, x) \<leftarrow> es, k = s \<and> a \<le> t \<and> t \<le> b]"
proof (induction bs arbitrary: d)
  case Nil
  show ?case using selectTicks_sorted_mset [of d s a b] by simp
next
  case (Cons p bs)
  obtain t es where p: "p = (t, es)" by (cases p) auto
  from Cons [of "saveTicks t (finite_batch es) d"] saveTicks_query_roundtrip [of t es d s a b]
  show ?case by (simp add: p)
qed

lemma selectSince_cd_covered:
  "\<forall>k\<in>set d. symbol k = s \<longrightarrow> ts k \<le> b \<Longrightarrow> selectSince_cd d s a = selectTicks d s a b"
proof -
  assume h: "\<forall>k\<in>set d. symbol k = s \<longrightarrow> ts k \<le> b"
  have "filter (\<lambda>k. symbol k = s \<and> a \<le> ts k) d = filter (\<lambda>k. symbol k = s \<and> a \<le> ts k \<and> ts k \<le> b) d"
    using h by (intro filter_cong) auto
  then show ?thesis by (simp add: selectSince_cd_def selectTicks_def)
qed

text \<open>
  C5. Claim: finite ticks appended for an indicator and then queried over an interval
  covering them come back sorted by timestamp, none missing. \<^verbatim>\<open>part_000\<close> and
  \<^verbatim>\<open>part_002\<close> satisfy this (\<open>saveTicks_query_roundtrip\<close>,
  \<open>appendBatches_query_roundtrip\<close>). In \<^verbatim>\<open>part_001\<close> the append drops a tick whose value is
  0, a finite number, because \<^verbatim>\<open>saveTicks\<close> tests truthiness: the batch
  \<^verbatim>\<open>{ KR10Y: 0 }\<close> at timestamp 5 leaves the query of KR10Y from 0 empty, where the batch
  save of \<^verbatim>\<open>part_000\<close> and \<^verbatim>\<open>part_002\<close> followed by the closed query returns the tick
  \<open>(5, 0)\<close>. A cycle of \<^verbatim>\<open>collectData\<close> in which the Korean yield parses to 0 stores the
  four other indicators and no tick of KR10Y, and \<^verbatim>\<open>getCandles\<close> has no candle for it.
\<close>

theorem C5_zero_tick_lost_cd:
  "selectSince_cd (saveTicks_cd 5 [''KR10Y'' \<mapsto> Number (Fin 0)] []) ''KR10Y'' 0 = []
   \<and> selectTicks (saveTicks 5 [(''KR10Y'', Number (Fin 0))] []) ''KR10Y'' 0 10 = [(5, Fin 0)]
   \<and> snd (collectData (Inr (Fin 1301, Fin 1401)) (Inr (Fin 0, Fin 4.25)) (Inr (Fin 99)) 5000 ''asof''
        (\<lparr>USDKRW = Null, EURKRW = Null, DXY = Null, KR10Y = Null, US10Y = Null, spread10y_cd = Null,
          asofKST_cd = ''boot'', errors_cd = []\<rparr>, []))
       = [\<lparr>ts = 5, symbol = ''USDKRW'', val = Fin 1301\<rparr>, \<lparr>ts = 5, symbol = ''EURKRW'', val = Fin 1401\<rparr>,
          \<lparr>ts = 5, symbol = ''DXY'', val = Fin 99\<rparr>, \<lparr>ts = 5, symbol = ''US10Y'', val = Fin 4.25\<rparr>]
   \<and> getCandles_cd
        (snd (collectData (Inr (Fin 1301, Fin 1401)) (Inr (Fin 0, Fin 4.25)) (Inr (Fin 99)) 5000 ''asof''
          (\<lparr>USDKRW = Null, EURKRW = Null, DXY = Null, KR10Y = Null, US10Y = Null, spread10y_cd = Null,
            asofKST_cd = ''boot'', errors_cd = []\<rparr>, [])))
        6000 ''KR10Y'' ''1m'' ''24h'' = []"
proof -
  have c: "snd (collectData (Inr (Fin 1301, Fin 1401)) (Inr (Fin 0, Fin 4.25)) (Inr (Fin 99)) 5000 ''asof''
        (\<lparr>USDKRW = Null, EURKRW = Null, DXY = Null, KR10Y = Null, US10Y = Null, spread10y_cd = Null,
          asofKST_cd = ''boot'', errors_cd = []\<rparr>, []))
       = [\<lparr>ts = 5, symbol = ''USDKRW'', val = Fin 1301\<rparr>, \<lparr>ts = 5, symbol = ''EURKRW'', val = Fin 1401\<rparr>,
          \<lparr>ts = 5, symbol = ''DXY'', val = Fin 99\<rparr>, \<lparr>ts = 5, symbol = ''US10Y'', val = Fin 4.25\<rparr>]"
    by (simp add: collectData_def crawlNaverFx_cd_def crawlNaverBond_cd_def crawlInvestingDXY_cd_def
        Let_def notNaN_def saveTicks_cd_def rows_cd_def push_cd_def field_def map_add_def)
  have 1: "selectSince_cd (saveTicks_cd 5 [''KR10Y'' \<mapsto> Number (Fin 0)] []) ''KR10Y'' 0 = []"
    by (simp add: saveTicks_cd_def rows_cd_def push_cd_def field_def selectSince_cd_def)
  have 2: "selectTicks (saveTicks 5 [(''KR10Y'', Number (Fin 0))] []) ''KR10Y'' 0 10 = [(5, Fin 0)]"
    by (simp add: insertTick_def selectTicks_def)
  have 3: "getCandles_cd
        [\<lparr>ts = 5, symbol = ''USDKRW'', val = Fin 1301\<rparr>, \<lparr>ts = 5, symbol = ''EURKRW'', val = Fin 1401\<rparr>,
          \<lparr>ts = 5, symbol = ''DXY'', val = Fin 99\<rparr>, \<lparr>ts = 5, symbol = ''US10Y'', val = Fin 4.25\<rparr>]
        6000 ''KR10Y'' ''1m'' ''24h'' = []"
    by (simp add: getCandles_cd_def selectSince_cd_def Let_def)
  from c 1 2 3 show ?thesis by simp
qed

subsection \<open>The truthiness test skips zero\<close>

lemma push_cd_truthy:
  "symbol ` set rows \<subseteq> {j. truthy (field obj j)} \<Longrightarrow>
   symbol ` set (push_cd t obj j rows) \<subseteq> {j. truthy (field obj j)}"
  by (auto simp: push_cd_def split: jsval.splits)

lemma rows_cd_truthy: "symbol ` set (rows_cd t obj) \<subseteq> {j. truthy (field obj j)}"
  unfolding rows_cd_def by (intro push_cd_truthy) simp

text \<open>
  C10. In \<^verbatim>\<open>saveTicks\<close> of \<^verbatim>\<open>part_001\<close>, a batch entry whose value is exactly 0 is
  skipped: the store afterwards is the one obtained without the entry, and no row of that
  symbol is among the rows inserted.
\<close>

theorem C10_zero_skipped:
  "saveTicks_cd t (obj(k \<mapsto> Number (Fin 0))) d = saveTicks_cd t (obj(k := None)) d
   \<and> k \<notin> symbol ` set (rows_cd t (obj(k \<mapsto> Number (Fin 0))))"
proof -
  have p: "\<And>j rows. push_cd t (obj(k \<mapsto> Number (Fin 0))) j rows = push_cd t (obj(k := None)) j rows"
    by (simp add: push_cd_def field_def)
  have r: "rows_cd t (obj(k \<mapsto> Number (Fin 0))) = rows_cd t (obj(k := None))"
    by (simp add: rows_cd_def p)
  have "\<not> truthy (field (obj(k \<mapsto> Number (Fin 0))) k)" by (simp add: field_def)
  then have "k \<notin> symbol ` set (rows_cd t (obj(k \<mapsto> Number (Fin 0))))"
    using rows_cd_truthy [of t "obj(k \<mapsto> Number (Fin 0))"] by blast
  with r show ?thesis by (simp add: saveTicks_cd_def)
qed

theorem C10_zero_skipped_witness:
  "saveTicks_cd 1700000000 [''DXY'' \<mapsto> Number (Fin 98.875), ''USDKRW'' \<mapsto> Number (Fin 0)] []
     = [\<lparr>ts = 1700000000, symbol = ''DXY'', val = Fin 98.875\<rparr>]
   \<and> ''USDKRW'' \<notin> symbol ` set (rows_cd 1700000000 [''DXY'' \<mapsto> Number (Fin 98.875), ''USDKRW'' \<mapsto> Number (Fin 0)])"
  using C10_zero_skipped [of 1700000000 "[''DXY'' \<mapsto> Number (Fin 98.875)]" "''USDKRW''" "[]"]
  by (simp add: saveTicks_cd_def rows_cd_def push_cd_def field_def)

subsection \<open>The aggregation loop\<close>


lemma ohlc_step_update:
  "ohlc_step w m r =
     AList.update (bucketStart (fst r) w)
       (case map_of m (bucketStart (fst r) w) of
          None \<Rightarrow> \<lparr>c_t = bucketStart (fst r) w, c_o = snd r, c_h = snd r, c_l = snd r, c_c = snd r\<rparr>
        | Some x \<Rightarrow> x\<lparr>c_h := js_max (c_h x) (snd r), c_l := js_min (c_l x) (snd r), c_c := snd r\<rparr>) m"
  by (simp add: ohlc_step_def Let_def split: option.splits)











subsection \<open>Malformed and zero parameters\<close>

text \<open>
  The keys of the aggregation map, for any rows: the bucket starts met, each once, and
  every candle carries its key. With a zero width every key is NaN, so at most one candle
  is emitted.
\<close>

lemma set_update_subset: "set (AList.update k v al) \<subseteq> insert (k, v) (set al)"
  by (induction al) auto

lemma ohlc_step_keys:
  "fst ` set (ohlc_step w m r) = insert (bucketStart (fst r) w) (fst ` set m)"
  by (simp add: ohlc_step_update dom_update)

lemma ohlc_step_distinct: "distinct (map fst m) \<Longrightarrow> distinct (map fst (ohlc_step w m r))"
  by (simp add: ohlc_step_update distinct_update)

lemma ohlc_fold_keys:
  "fst ` set (foldl (ohlc_step w) m rows) = fst ` set m \<union> (\<lambda>r. bucketStart (fst r) w) ` set rows"
  by (induction rows arbitrary: m) (auto simp: ohlc_step_keys)

lemma ohlc_fold_distinct:
  "distinct (map fst m) \<Longrightarrow> distinct (map fst (foldl (ohlc_step w) m rows))"
  by (induction rows arbitrary: m) (auto simp: ohlc_step_distinct)

lemma ohlc_step_c_t:
  assumes "\<forall>p\<in>set m. c_t (snd p) = fst p"
  shows "\<forall>p\<in>set (ohlc_step w m r). c_t (snd p) = fst p"
proof
  fix p assume p: "p \<in> set (ohlc_step w m r)"
  define b where "b = bucketStart (fst r) w"
  define y where "y = (case map_of m b of
          None \<Rightarrow> \<lparr>c_t = b, c_o = snd r, c_h = snd r, c_l = snd r, c_c = snd r\<rparr>
        | Some x \<Rightarrow> x\<lparr>c_h := js_max (c_h x) (snd r), c_l := js_min (c_l x) (snd r), c_c := snd r\<rparr>)"
  have "ohlc_step w m r = AList.update b y m" unfolding b_def y_def by (rule ohlc_step_update)
  with p set_update_subset [of b y m] have "p = (b, y) \<or> p \<in> set m" by auto
  moreover have "c_t y = b"
  proof (cases "map_of m b")
    case None then show ?thesis by (simp add: y_def)
  next
    case (Some x)
    then have "(b, x) \<in> set m" by (rule map_of_SomeD)
    with assms have "c_t x = b" by force
    with Some show ?thesis by (simp add: y_def)
  qed
  ultimately show "c_t (snd p) = fst p" using assms by auto
qed

lemma ohlc_fold_c_t:
  "\<forall>p\<in>set m. c_t (snd p) = fst p \<Longrightarrow> \<forall>p\<in>set (foldl (ohlc_step w) m rows). c_t (snd p) = fst p"
proof (induction rows arbitrary: m)
  case Nil then show ?case by simp
next
  case (Cons r rows)
  from ohlc_step_c_t [OF Cons.prems] have "\<forall>p\<in>set (ohlc_step w m r). c_t (snd p) = fst p" .
  from Cons.IH [OF this] show ?case by simp
qed

lemma ohlc_zero_width: "length (ohlc 0 rows) \<le> 1 \<and> c_t ` set (ohlc 0 rows) \<subseteq> {None}"
proof -
  define m where "m = foldl (ohlc_step 0) [] rows"
  have k: "fst ` set m \<subseteq> {None}" unfolding m_def by (auto simp: ohlc_fold_keys bucketStart_def)
  have d: "distinct (map fst m)" unfolding m_def by (rule ohlc_fold_distinct) simp
  have c: "\<forall>p\<in>set m. c_t (snd p) = fst p" unfolding m_def by (rule ohlc_fold_c_t) simp
  have "length m = card (fst ` set m)" using distinct_card [OF d] by simp
  also have "\<dots> \<le> card {None :: int option}" using k by (intro card_mono) auto
  finally have l: "length m \<le> 1" by simp
  have "c_t ` set (ohlc 0 rows) \<subseteq> {None}" using k c by (auto simp: ohlc_def m_def [symmetric])
  with l show ?thesis by (simp add: ohlc_def m_def [symmetric])
qed

text \<open>
  The parsers have no failure: \<^verbatim>\<open>if (!m) return ...\<close> answers a string that does not
  match with a default, and \<^verbatim>\<open>getCandles\<close> goes on with it. The interval \<^verbatim>\<open>"abc"\<close> and
  the range \<^verbatim>\<open>"soon"\<close> give the candles of 30 minutes over 7 days; the interval
  \<^verbatim>\<open>"0m"\<close> parses to zero and gives one candle whose bucket start is NaN.
\<close>

theorem C3_defaults_counterexample:
  "intervalToMs ''abc'' = 1800000 \<and> parseRangeToMs ''soon'' = 604800000
   \<and> getCandles [\<lparr>ts = 0, symbol = ''X'', val = Fin 100\<rparr>] 60000 ''X'' ''abc'' ''soon''
       = [\<lparr>c_t = Some 0, c_o = Fin 100, c_h = Fin 100, c_l = Fin 100, c_c = Fin 100\<rparr>]
   \<and> intervalToMs ''0m'' = 0
   \<and> getCandles [\<lparr>ts = 0, symbol = ''X'', val = Fin 100\<rparr>] 60000 ''X'' ''0m'' ''1h''
       = [\<lparr>c_t = None, c_o = Fin 100, c_h = Fin 100, c_l = Fin 100, c_c = Fin 100\<rparr>]
   \<and> intervalToMs_cd ''abc'' = 60000 \<and> parseRangeToMs_cd ''soon'' = 86400000"
  by (simp add: getCandles_def selectTicks_def intervalToMs_def parseRangeToMs_def matchNumUnit_def
        intervalToMs_cd_def parseRangeToMs_cd_def
        orDefault_def isDigit_def parseInt_def digitVal_def ohlc_def ohlc_step_def bucketStart_def Let_def)

text \<open>
  C3, as amended. Claim: a bucket width or range that is invalid or parses to zero makes
  the aggregation fail with \<open>InvalidParameter\<close>, with no default. The code has no such
  failure. What holds: a width or range that does not match the unit grammar is replaced
  by the default (30 minutes and 7 days in \<^verbatim>\<open>part_000\<close> and \<^verbatim>\<open>part_002\<close>, 1 minute and
  24 hours in \<^verbatim>\<open>part_001\<close>), and the aggregation returns what it returns for the default;
  a width that parses to zero is used as zero and yields at most one candle, of bucket
  start NaN; a range that parses to zero is used as zero, the query interval being
  \<open>[now, now]\<close>.
\<close>

theorem C3_defaults_amended:
  "(matchNumUnit ''smh'' (orDefault i ''30m'') = None \<longrightarrow>
      intervalToMs i = 30 * 60 * 1000 \<and> getCandles d now s i r = getCandles d now s ''30m'' r)
   \<and> (matchNumUnit ''dh'' (orDefault r ''7d'') = None \<longrightarrow>
      parseRangeToMs r = 7 * 24 * 60 * 60 * 1000 \<and> getCandles d now s i r = getCandles d now s i ''7d'')
   \<and> (matchNumUnit ''mh'' (orDefault i ''30m'') = None \<longrightarrow> intervalToMs_v0 i = 30 * 60 * 1000)
   \<and> (matchNumUnit ''mh'' i = None \<longrightarrow>
      intervalToMs_cd i = 60000 \<and> getCandles_cd d now s i r = getCandles_cd d now s ''1m'' r)
   \<and> (matchNumUnit ''mhd'' r = None \<longrightarrow>
      parseRangeToMs_cd r = 24 * 3600 * 1000 \<and> getCandles_cd d now s i r = getCandles_cd d now s i ''24h'')
   \<and> (intervalToMs i = 0 \<longrightarrow>
      length (getCandles d now s i r) \<le> 1 \<and> c_t ` set (getCandles d now s i r) \<subseteq> {None})
   \<and> (parseRangeToMs r = 0 \<longrightarrow>
      getCandles d now s i r = ohlc (intervalToMs i) (selectTicks d s now now))"
proof -
  have d30: "intervalToMs ''30m'' = 30 * 60 * 1000"
    by (simp add: intervalToMs_def matchNumUnit_def orDefault_def isDigit_def parseInt_def digitVal_def)
  have d7: "parseRangeToMs ''7d'' = 7 * 24 * 60 * 60 * 1000"
    by (simp add: parseRangeToMs_def matchNumUnit_def orDefault_def isDigit_def parseInt_def digitVal_def)
  have d1: "intervalToMs_cd ''1m'' = 60000"
    by (simp add: intervalToMs_cd_def matchNumUnit_def isDigit_def parseInt_def digitVal_def)
  have d24: "parseRangeToMs_cd ''24h'' = 24 * 3600 * 1000"
    by (simp add: parseRangeToMs_cd_def matchNumUnit_def isDigit_def parseInt_def digitVal_def)
  have a: "matchNumUnit ''smh'' (orDefault i ''30m'') = None \<longrightarrow>
      intervalToMs i = 30 * 60 * 1000 \<and> getCandles d now s i r = getCandles d now s ''30m'' r"
    using d30 by (simp add: getCandles_def intervalToMs_def)
  have b: "matchNumUnit ''dh'' (orDefault r ''7d'') = None \<longrightarrow>
      parseRangeToMs r = 7 * 24 * 60 * 60 * 1000 \<and> getCandles d now s i r = getCandles d now s i ''7d''"
    using d7 by (simp add: getCandles_def parseRangeToMs_def)
  have c: "matchNumUnit ''mh'' (orDefault i ''30m'') = None \<longrightarrow> intervalToMs_v0 i = 30 * 60 * 1000"
    by (simp add: intervalToMs_v0_def)
  have e: "matchNumUnit ''mh'' i = None \<longrightarrow>
      intervalToMs_cd i = 60000 \<and> getCandles_cd d now s i r = getCandles_cd d now s ''1m'' r"
    using d1 by (simp add: getCandles_cd_def intervalToMs_cd_def)
  have f: "matchNumUnit ''mhd'' r = None \<longrightarrow>
      parseRangeToMs_cd r = 24 * 3600 * 1000 \<and> getCandles_cd d now s i r = getCandles_cd d now s i ''24h''"
    using d24 by (simp add: getCandles_cd_def parseRangeToMs_cd_def)
  have g: "intervalToMs i = 0 \<longrightarrow>
      length (getCandles d now s i r) \<le> 1 \<and> c_t ` set (getCandles d now s i r) \<subseteq> {None}"
    using ohlc_zero_width by (simp add: getCandles_def Let_def)
  have h: "parseRangeToMs r = 0 \<longrightarrow>
      getCandles d now s i r = ohlc (intervalToMs i) (selectTicks d s now now)"
    by (simp add: getCandles_def Let_def)
  from a b c e f g h show ?thesis by blast
qed

theorem C3_defaults_amended_witness:
  "matchNumUnit ''smh'' (orDefault ''abc'' ''30m'') = None
   \<and> matchNumUnit ''dh'' (orDefault ''soon'' ''7d'') = None
   \<and> matchNumUnit ''mh'' (orDefault ''abc'' ''30m'') = None
   \<and> matchNumUnit ''mh'' ''abc'' = None \<and> matchNumUnit ''mhd'' ''soon'' = None
   \<and> intervalToMs ''0m'' = 0 \<and> parseRangeToMs ''0h'' = 0
   \<and> intervalToMs ''abc'' = 30 * 60 * 1000 \<and> parseRangeToMs ''soon'' = 7 * 24 * 60 * 60 * 1000
   \<and> intervalToMs_v0 ''abc'' = 30 * 60 * 1000
   \<and> intervalToMs_cd ''abc'' = 60000 \<and> parseRangeToMs_cd ''soon'' = 24 * 3600 * 1000
   \<and> getCandles [\<lparr>ts = 0, symbol = ''X'', val = Fin 100\<rparr>] 60000 ''X'' ''abc'' ''soon''
       = getCandles [\<lparr>ts = 0, symbol = ''X'', val = Fin 100\<rparr>] 60000 ''X'' ''30m'' ''soon''
   \<and> length (getCandles [\<lparr>ts = 0, symbol = ''X'', val = Fin 100\<rparr>] 60000 ''X'' ''0m'' ''0h'') \<le> 1"
proof -
  let ?d = "[\<lparr>ts = 0, symbol = ''X'', val = Fin 100\<rparr>]"
  note t = C3_defaults_amended [of "''abc''" ?d 60000 "''X''" "''soon''"]
  note z = C3_defaults_amended [of "''0m''" ?d 60000 "''X''" "''0h''"]
  have m1: "matchNumUnit ''smh'' (orDefault ''abc'' ''30m'') = None"
    and m2: "matchNumUnit ''dh'' (orDefault ''soon'' ''7d'') = None"
    and m3: "matchNumUnit ''mh'' (orDefault ''abc'' ''30m'') = None"
    and m4: "matchNumUnit ''mh'' ''abc'' = None"
    and m5: "matchNumUnit ''mhd'' ''soon'' = None"
    by (simp_all add: matchNumUnit_def orDefault_def isDigit_def)
  have z1: "intervalToMs ''0m'' = 0"
    by (simp add: intervalToMs_def matchNumUnit_def orDefault_def isDigit_def parseInt_def digitVal_def)
  have z2: "parseRangeToMs ''0h'' = 0"
    by (simp add: parseRangeToMs_def matchNumUnit_def orDefault_def isDigit_def parseInt_def digitVal_def)
  from t m1 have c1: "intervalToMs ''abc'' = 30 * 60 * 1000
      \<and> getCandles ?d 60000 ''X'' ''abc'' ''soon'' = getCandles ?d 60000 ''X'' ''30m'' ''soon''" by blast
  from t m2 have c2: "parseRangeToMs ''soon'' = 7 * 24 * 60 * 60 * 1000" by blast
  from t m3 have c3: "intervalToMs_v0 ''abc'' = 30 * 60 * 1000" by blast
  from t m4 have c4: "intervalToMs_cd ''abc'' = 60000" by blast
  from t m5 have c5: "parseRangeToMs_cd ''soon'' = 24 * 3600 * 1000" by blast
  from z z1 have c6: "length (getCandles ?d 60000 ''X'' ''0m'' ''0h'') \<le> 1" by blast
  from m1 m2 m3 m4 m5 z1 z2 c1 c2 c3 c4 c5 c6 show ?thesis by blast
qed

subsection \<open>A collection cycle with a failing fetch\<close>

lemma saveTicks_slot_ticks:
  "saveTicks t pairs d = d @ concat (map (\<lambda>(s, v). slot_tick t s v) pairs)"
  by (induction t pairs d rule: saveTicks.induct) (simp_all add: slot_tick_def insertTick_def)

lemma try_fx_fst:
  "fst (try_fx r cy) =
     (case r of
        Inr (usd, eur) \<Rightarrow> (fst cy)\<lparr>usdkrw := (if isNumber usd then usd else usdkrw (fst cy)),
                                  eurkrw := (if isNumber eur then eur else eurkrw (fst cy))\<rparr>
      | Inl e \<Rightarrow> fst cy)"
  by (simp add: try_fx_def split: prod.splits sum.splits)

lemma try_kr10y_fst:
  "fst (try_kr10y r cy) = (case r of Inr v \<Rightarrow> (fst cy)\<lparr>kr10y := Number v\<rparr> | Inl e \<Rightarrow> fst cy)"
  by (simp add: try_kr10y_def split: prod.splits sum.splits)

lemma try_us10y_fst:
  "fst (try_us10y r cy) = (case r of Inr v \<Rightarrow> (fst cy)\<lparr>us10y := Number v\<rparr> | Inl e \<Rightarrow> fst cy)"
  by (simp add: try_us10y_def split: prod.splits sum.splits)

lemma try_dxy_fst:
  "fst (try_dxy r cy) = (case r of Inr v \<Rightarrow> (fst cy)\<lparr>dxy := Number v\<rparr> | Inl e \<Rightarrow> fst cy)"
  by (simp add: try_dxy_def split: prod.splits sum.splits)

lemma try_fx_status:
  "snd (snd (try_fx r cy)) = (if isl r then WARN else snd (snd cy))"
  by (simp add: try_fx_def split: prod.splits sum.splits)

lemma try_kr10y_status:
  "snd (snd (try_kr10y r cy)) = (if isl r then WARN else snd (snd cy))"
  by (simp add: try_kr10y_def split: prod.splits sum.splits)

lemma try_us10y_status:
  "snd (snd (try_us10y r cy)) = (if isl r then WARN else snd (snd cy))"
  by (simp add: try_us10y_def split: prod.splits sum.splits)

lemma try_dxy_status:
  "snd (snd (try_dxy r cy)) = (if isl r \<and> snd (snd cy) = OK then WARN else snd (snd cy))"
  by (simp add: try_dxy_def split: prod.splits sum.splits)

lemma compute_spread_slots:
  "usdkrw (compute_spread st) = usdkrw st" "eurkrw (compute_spread st) = eurkrw st"
  "dxy (compute_spread st) = dxy st" "kr10y (compute_spread st) = kr10y st"
  "us10y (compute_spread st) = us10y st"
  "spread10y (compute_spread st) =
     (case (us10y st, kr10y st) of
        (Number a, Number b) \<Rightarrow> Number (toFixed3 (js_sub a b))
      | _ \<Rightarrow> spread10y st)"
  by (simp_all add: compute_spread_def split: jsval.splits)

lemma refresh_unfold:
  "refresh fx kr us dx now asof (st, d) =
     (let cy = try_dxy dx (try_us10y us (try_kr10y kr (try_fx fx (st, [], OK))));
          st3 = (compute_spread (fst cy))\<lparr>asofKST := Some asof, status := snd (snd cy),
                                           errors := take 6 (fst (snd cy))\<rparr>
      in (st3, saveTicks now (tick_entries st3) d))"
  by (simp add: refresh_def Let_def split: prod.splits)

lemma refresh_written:
  "written s d (snd (refresh fx kr us dx now asof (st, d))) =
     filter (\<lambda>k. symbol k = s)
       (concat (map (\<lambda>(s, v). slot_tick now s v)
          (tick_entries (fst (refresh fx kr us dx now asof (st, d))))))"
  by (simp add: refresh_unfold Let_def written_def saveTicks_slot_ticks)

lemma filter_slot_tick:
  "filter (\<lambda>k. symbol k = s) (slot_tick t s' v) = (if s' = s then slot_tick t s' v else [])"
  by (simp add: slot_tick_def split: jsval.splits)

lemmas ieee_eval = RN_def RN_ulp_def RN_pack_def expo_def expo_up.simps expo_down.simps
  pow2_def rne_def

lemmas refresh_eval = refresh_def try_fx_def try_kr10y_def try_us10y_def try_dxy_def
  compute_spread_def tick_entries_def Let_def insertTick_def state0_def

text \<open>
  \<^verbatim>\<open>refresh\<close> hands the snapshot slots to \<^verbatim>\<open>saveTicks\<close>, not the values fetched in this
  cycle. With the Korean bond fetch failing and the slot holding 3.5 from an earlier
  cycle, the cycle at timestamp 1000 writes the tick \<open>(1000, KR10Y, 3.5)\<close>.
\<close>

theorem C1_stale_tick_counterexample:
  "refresh (Inr (Number (Fin 1301), Number (Fin 1401))) (Inl ''Bond parse failed'') (Inr (Fin 4.25))
      (Inr (Fin 99)) 1000 ''asof''
      (state0\<lparr>status := OK, usdkrw := Number (Fin 1300), eurkrw := Number (Fin 1400),
              dxy := Number (Fin 98), kr10y := Number (Fin 3.5), us10y := Number (Fin 4),
              spread10y := Number (Fin 0.5)\<rparr>, [])
   = (\<lparr>asofKST = Some ''asof'', status = WARN, usdkrw = Number (Fin 1301), eurkrw = Number (Fin 1401),
       dxy = Number (Fin 99), kr10y = Number (Fin 3.5), us10y = Number (Fin 4.25),
       spread10y = Number (Fin 0.75), errors = [''Bond parse failed'']\<rparr>,
      [\<lparr>ts = 1000, symbol = ''USDKRW'', val = Fin 1301\<rparr>, \<lparr>ts = 1000, symbol = ''EURKRW'', val = Fin 1401\<rparr>,
       \<lparr>ts = 1000, symbol = ''DXY'', val = Fin 99\<rparr>, \<lparr>ts = 1000, symbol = ''KR10Y'', val = Fin 3.5\<rparr>,
       \<lparr>ts = 1000, symbol = ''US10Y'', val = Fin 4.25\<rparr>, \<lparr>ts = 1000, symbol = ''SPREAD10Y'', val = Fin 0.75\<rparr>])"
  by (simp add: refresh_eval ieee_eval)

text \<open>
  C1, as amended. Claim: with one fetch failing, the status is degraded, the successful
  slots hold the new values, the failed slot keeps its value, and no tick is written for
  the failed indicator at the cycle's timestamp. The cycle has four fetches (the FX page
  yields two indicators). What holds for every cycle: the status is \<open>WARN\<close> exactly when
  some fetch failed; a bond or index slot holds the value fetched, and its previous value
  when the fetch failed; an FX slot holds the value fetched when that is a number, and its
  previous value otherwise; and for each indicator the store receives at the cycle's
  timestamp the tick of the slot as it stands after the cycle: one tick when the slot
  holds a finite number, none otherwise. So the failed indicator gets no tick only when
  its slot holds no finite number; a value retained from an earlier cycle is written
  again.
\<close>

theorem C1_partial_failure_amended:
  assumes "refresh fx kr us dx now asof (st, d) = (st', d')"
  shows "status st' = (if isl fx \<or> isl kr \<or> isl us \<or> isl dx then WARN else OK)
       \<and> (case kr of Inr v \<Rightarrow> kr10y st' = Number v | Inl e \<Rightarrow> kr10y st' = kr10y st)
       \<and> (case us of Inr v \<Rightarrow> us10y st' = Number v | Inl e \<Rightarrow> us10y st' = us10y st)
       \<and> (case dx of Inr v \<Rightarrow> dxy st' = Number v | Inl e \<Rightarrow> dxy st' = dxy st)
       \<and> (case fx of
             Inr (usd, eur) \<Rightarrow> usdkrw st' = (if isNumber usd then usd else usdkrw st)
                             \<and> eurkrw st' = (if isNumber eur then eur else eurkrw st)
           | Inl e \<Rightarrow> usdkrw st' = usdkrw st \<and> eurkrw st' = eurkrw st)
       \<and> written ''KR10Y'' d d' = slot_tick now ''KR10Y'' (kr10y st')
       \<and> written ''US10Y'' d d' = slot_tick now ''US10Y'' (us10y st')
       \<and> written ''DXY'' d d' = slot_tick now ''DXY'' (dxy st')
       \<and> written ''USDKRW'' d d' = slot_tick now ''USDKRW'' (usdkrw st')
       \<and> written ''EURKRW'' d d' = slot_tick now ''EURKRW'' (eurkrw st')"
proof -
  from assms have st': "st' = fst (refresh fx kr us dx now asof (st, d))"
    and d': "d' = snd (refresh fx kr us dx now asof (st, d))" by simp_all
  have s: "status st' = (if isl fx \<or> isl kr \<or> isl us \<or> isl dx then WARN else OK)"
    unfolding st' by (simp add: refresh_unfold Let_def try_dxy_status try_us10y_status try_kr10y_status try_fx_status)
  have k: "(case kr of Inr v \<Rightarrow> kr10y st' = Number v | Inl e \<Rightarrow> kr10y st' = kr10y st)"
    unfolding st'
    by (simp add: refresh_unfold Let_def compute_spread_slots try_dxy_fst try_us10y_fst try_kr10y_fst try_fx_fst
        split: sum.splits prod.splits)
  have u: "(case us of Inr v \<Rightarrow> us10y st' = Number v | Inl e \<Rightarrow> us10y st' = us10y st)"
    unfolding st'
    by (simp add: refresh_unfold Let_def compute_spread_slots try_dxy_fst try_us10y_fst try_kr10y_fst try_fx_fst
        split: sum.splits prod.splits)
  have x: "(case dx of Inr v \<Rightarrow> dxy st' = Number v | Inl e \<Rightarrow> dxy st' = dxy st)"
    unfolding st'
    by (simp add: refresh_unfold Let_def compute_spread_slots try_dxy_fst try_us10y_fst try_kr10y_fst try_fx_fst
        split: sum.splits prod.splits)
  have f: "(case fx of
             Inr (usd, eur) \<Rightarrow> usdkrw st' = (if isNumber usd then usd else usdkrw st)
                             \<and> eurkrw st' = (if isNumber eur then eur else eurkrw st)
           | Inl e \<Rightarrow> usdkrw st' = usdkrw st \<and> eurkrw st' = eurkrw st)"
    unfolding st'
    by (simp add: refresh_unfold Let_def compute_spread_slots try_dxy_fst try_us10y_fst try_kr10y_fst try_fx_fst
        split: sum.splits prod.splits)
  have w: "written ''KR10Y'' d d' = slot_tick now ''KR10Y'' (kr10y st')"
    "written ''US10Y'' d d' = slot_tick now ''US10Y'' (us10y st')"
    "written ''DXY'' d d' = slot_tick now ''DXY'' (dxy st')"
    "written ''USDKRW'' d d' = slot_tick now ''USDKRW'' (usdkrw st')"
    "written ''EURKRW'' d d' = slot_tick now ''EURKRW'' (eurkrw st')"
    unfolding d' st' refresh_written by (simp_all add: tick_entries_def filter_slot_tick)
  from s k u x f w show ?thesis by simp
qed

theorem C1_partial_failure_amended_witness:
  "refresh (Inr (Number (Fin 1301), Null)) (Inr (Fin 3)) (Inr (Fin 4)) (Inl ''Naver DXY parse failed'')
      2000 ''asof'' (state0\<lparr>dxy := Number (Fin 98)\<rparr>, [])
   = (\<lparr>asofKST = Some ''asof'', status = WARN, usdkrw = Number (Fin 1301), eurkrw = Null,
       dxy = Number (Fin 98), kr10y = Number (Fin 3), us10y = Number (Fin 4),
       spread10y = Number (Fin 1), errors = [''Naver DXY parse failed'']\<rparr>,
      [\<lparr>ts = 2000, symbol = ''USDKRW'', val = Fin 1301\<rparr>, \<lparr>ts = 2000, symbol = ''DXY'', val = Fin 98\<rparr>,
       \<lparr>ts = 2000, symbol = ''KR10Y'', val = Fin 3\<rparr>, \<lparr>ts = 2000, symbol = ''US10Y'', val = Fin 4\<rparr>,
       \<lparr>ts = 2000, symbol = ''SPREAD10Y'', val = Fin 1\<rparr>])
   \<and> written ''DXY'' []
        [\<lparr>ts = 2000, symbol = ''USDKRW'', val = Fin 1301\<rparr>, \<lparr>ts = 2000, symbol = ''DXY'', val = Fin 98\<rparr>,
         \<lparr>ts = 2000, symbol = ''KR10Y'', val = Fin 3\<rparr>, \<lparr>ts = 2000, symbol = ''US10Y'', val = Fin 4\<rparr>,
         \<lparr>ts = 2000, symbol = ''SPREAD10Y'', val = Fin 1\<rparr>]
       = slot_tick 2000 ''DXY'' (Number (Fin 98))"
proof -
  have e: "refresh (Inr (Number (Fin 1301), Null)) (Inr (Fin 3)) (Inr (Fin 4)) (Inl ''Naver DXY parse failed'')
      2000 ''asof'' (state0\<lparr>dxy := Number (Fin 98)\<rparr>, [])
   = (\<lparr>asofKST = Some ''asof'', status = WARN, usdkrw = Number (Fin 1301), eurkrw = Null,
       dxy = Number (Fin 98), kr10y = Number (Fin 3), us10y = Number (Fin 4),
       spread10y = Number (Fin 1), errors = [''Naver DXY parse failed'']\<rparr>,
      [\<lparr>ts = 2000, symbol = ''USDKRW'', val = Fin 1301\<rparr>, \<lparr>ts = 2000, symbol = ''DXY'', val = Fin 98\<rparr>,
       \<lparr>ts = 2000, symbol = ''KR10Y'', val = Fin 3\<rparr>, \<lparr>ts = 2000, symbol = ''US10Y'', val = Fin 4\<rparr>,
       \<lparr>ts = 2000, symbol = ''SPREAD10Y'', val = Fin 1\<rparr>])"
    by (simp add: refresh_eval ieee_eval)
  from C1_partial_failure_amended [OF e] e show ?thesis by simp
qed

subsection \<open>The computed spread\<close>

lemma push_cd_symbols:
  "symbol ` set rows \<subseteq> S \<Longrightarrow> j \<in> S \<Longrightarrow> symbol ` set (push_cd t obj j rows) \<subseteq> S"
  by (auto simp: push_cd_def split: jsval.splits)

lemma rows_cd_symbols:
  "symbol ` set (rows_cd t obj) \<subseteq> {''USDKRW'', ''EURKRW'', ''DXY'', ''KR10Y'', ''US10Y''}"
  unfolding rows_cd_def by (intro push_cd_symbols) simp_all

lemma saveTicks_cd_written: "written ''SPREAD10Y'' d (saveTicks_cd t obj d) = []"
proof -
  have "drop (length d) (saveTicks_cd t obj d) = rows_cd t obj" by (simp add: saveTicks_cd_def)
  moreover have "filter (\<lambda>k. symbol k = ''SPREAD10Y'') (rows_cd t obj) = []"
    using rows_cd_symbols [of t obj] by (auto simp: filter_empty_conv)
  ultimately show ?thesis by (simp add: written_def)
qed

text \<open>
  The rounding at work. The texts \<^verbatim>\<open>4.1235\<close> and \<^verbatim>\<open>3.123\<close> parse to doubles whose
  difference is a double just below 1.0005, so that the spread of three decimals is 1 and
  not 1.001; the texts \<^verbatim>\<open>4.25\<close> and \<^verbatim>\<open>3.245\<close> parse to doubles whose difference is just
  below 1.005, so that \<^verbatim>\<open>toFixed(2)\<close> writes \<^verbatim>\<open>1.00\<close>.
\<close>

lemma spread_rounds_the_double:
  "RN 4.1235 = Fin (580331033233195 / 2 ^ 47)
   \<and> RN 3.123 = Fin (3516185409069515 / 2 ^ 50)
   \<and> js_sub (RN 4.1235) (RN 3.123) = Fin (1126462856796045 / 2 ^ 50)
   \<and> toFixed3 (js_sub (RN 4.1235) (RN 3.123)) = Fin 1"
  by (simp add: ieee_eval)

lemma toFixed2_rounds_the_double:
  "RN 4.25 = Fin 4.25
   \<and> RN 3.245 = Fin (3653545197704315 / 2 ^ 50)
   \<and> toFixed2_text (js_sub (RN 4.25) (RN 3.245)) = Some ''1.00''"
  by (simp add: ieee_eval toFixed2_text_def Let_def)

text \<open>
  In \<^verbatim>\<open>refresh\<close> the spread is computed from the slots, and the slot of a failed fetch
  holds the value of an earlier cycle: with the US bond fetch failing and its slot holding
  4, the fresh Korean yield 3 gives the spread 1, written at the cycle's timestamp.
\<close>

theorem C9_spread_counterexample:
  "refresh (Inr (Number (Fin 1301), Number (Fin 1401))) (Inr (Fin 3)) (Inl ''Bond parse failed'')
      (Inr (Fin 99)) 3000 ''asof'' (state0\<lparr>us10y := Number (Fin 4)\<rparr>, [])
   = (\<lparr>asofKST = Some ''asof'', status = WARN, usdkrw = Number (Fin 1301), eurkrw = Number (Fin 1401),
       dxy = Number (Fin 99), kr10y = Number (Fin 3), us10y = Number (Fin 4),
       spread10y = Number (Fin 1), errors = [''Bond parse failed'']\<rparr>,
      [\<lparr>ts = 3000, symbol = ''USDKRW'', val = Fin 1301\<rparr>, \<lparr>ts = 3000, symbol = ''EURKRW'', val = Fin 1401\<rparr>,
       \<lparr>ts = 3000, symbol = ''DXY'', val = Fin 99\<rparr>, \<lparr>ts = 3000, symbol = ''KR10Y'', val = Fin 3\<rparr>,
       \<lparr>ts = 3000, symbol = ''US10Y'', val = Fin 4\<rparr>, \<lparr>ts = 3000, symbol = ''SPREAD10Y'', val = Fin 1\<rparr>])"
  by (simp add: refresh_eval ieee_eval)

text \<open>
  C9, as amended. Claim: the spread is written to the store in a cycle only if both yields
  were obtained in that cycle. What holds: in \<^verbatim>\<open>part_000\<close> and \<^verbatim>\<open>part_002\<close> the spread is
  recomputed in every cycle from the two yield slots as they stand, whenever both hold a
  number, fetched in this cycle or retained; when both were fetched in this cycle it is
  \<^verbatim>\<open>+(us - kr).toFixed(3)\<close> of the two fetched doubles, the difference and the result
  rounded as doubles are; and the spread slot is written to the store in every cycle in
  which it holds a finite number. In \<^verbatim>\<open>part_001\<close> the spread slot changes only when both
  values parsed in this cycle are numbers, to the string \<^verbatim>\<open>(usVal - krVal).toFixed(2)\<close>, and
  the spread is never written to the store.
\<close>

theorem C9_spread_amended:
  assumes r: "refresh fx kr us dx now asof (st, d) = (st', d')"
    and c: "collectData fxr bondr dxr now_cd asof_cd (sc, dc) = (sc', dc')"
  shows "spread10y st' =
           (case (us10y st', kr10y st') of
              (Number a, Number b) \<Rightarrow> Number (toFixed3 (js_sub a b))
            | _ \<Rightarrow> spread10y st)
       \<and> (\<forall>a b. us = Inr a \<and> kr = Inr b \<longrightarrow> spread10y st' = Number (toFixed3 (js_sub a b)))
       \<and> written ''SPREAD10Y'' d d' = slot_tick now ''SPREAD10Y'' (spread10y st')
       \<and> spread10y_cd sc' =
           (case bondr of
              Inr (krVal, usVal) \<Rightarrow>
                (if notNaN krVal \<and> notNaN usVal then ToFixed2 (js_sub usVal krVal)
                 else spread10y_cd sc)
            | Inl e \<Rightarrow> spread10y_cd sc)
       \<and> written ''SPREAD10Y'' dc dc' = []"
proof -
  from r have st': "st' = fst (refresh fx kr us dx now asof (st, d))"
    and d': "d' = snd (refresh fx kr us dx now asof (st, d))" by simp_all
  have 1: "spread10y st' =
           (case (us10y st', kr10y st') of
              (Number a, Number b) \<Rightarrow> Number (toFixed3 (js_sub a b))
            | _ \<Rightarrow> spread10y st)"
    unfolding st'
    by (simp add: refresh_unfold Let_def compute_spread_slots try_dxy_fst try_us10y_fst try_kr10y_fst try_fx_fst
        split: sum.splits prod.splits jsval.splits)
  have 2: "\<forall>a b. us = Inr a \<and> kr = Inr b \<longrightarrow> spread10y st' = Number (toFixed3 (js_sub a b))"
    unfolding st'
    by (simp add: refresh_unfold Let_def compute_spread_slots try_dxy_fst try_us10y_fst try_kr10y_fst try_fx_fst
        split: sum.splits prod.splits)
  have 3: "written ''SPREAD10Y'' d d' = slot_tick now ''SPREAD10Y'' (spread10y st')"
    unfolding d' st' refresh_written by (simp add: tick_entries_def filter_slot_tick)
  from c have sc': "sc' = fst (collectData fxr bondr dxr now_cd asof_cd (sc, dc))"
    and dc': "dc' = snd (collectData fxr bondr dxr now_cd asof_cd (sc, dc))" by simp_all
  have 4: "spread10y_cd sc' =
           (case bondr of
              Inr (krVal, usVal) \<Rightarrow>
                (if notNaN krVal \<and> notNaN usVal then ToFixed2 (js_sub usVal krVal)
                 else spread10y_cd sc)
            | Inl e \<Rightarrow> spread10y_cd sc)"
    unfolding sc'
    by (simp add: collectData_def crawlNaverFx_cd_def crawlNaverBond_cd_def crawlInvestingDXY_cd_def Let_def
        split: sum.splits prod.splits)
  have 5: "written ''SPREAD10Y'' dc dc' = []"
    unfolding dc'
    by (simp add: collectData_def Let_def saveTicks_cd_written split: prod.splits)
  from 1 2 3 4 5 show ?thesis by simp
qed

theorem C9_spread_amended_witness:
  "refresh (Inr (Number (Fin 1301), Number (Fin 1401))) (Inr (Fin 3)) (Inr (Fin 4)) (Inr (Fin 99))
      4000 ''asof'' (state0, [])
   = (\<lparr>asofKST = Some ''asof'', status = OK, usdkrw = Number (Fin 1301), eurkrw = Number (Fin 1401),
       dxy = Number (Fin 99), kr10y = Number (Fin 3), us10y = Number (Fin 4),
       spread10y = Number (Fin 1), errors = []\<rparr>,
      [\<lparr>ts = 4000, symbol = ''USDKRW'', val = Fin 1301\<rparr>, \<lparr>ts = 4000, symbol = ''EURKRW'', val = Fin 1401\<rparr>,
       \<lparr>ts = 4000, symbol = ''DXY'', val = Fin 99\<rparr>, \<lparr>ts = 4000, symbol = ''KR10Y'', val = Fin 3\<rparr>,
       \<lparr>ts = 4000, symbol = ''US10Y'', val = Fin 4\<rparr>, \<lparr>ts = 4000, symbol = ''SPREAD10Y'', val = Fin 1\<rparr>])
   \<and> snd (collectData (Inr (Fin 1301, Fin 1401)) (Inr (Fin 3, Fin 4)) (Inr (Fin 99)) 4000000 ''asof''
        (\<lparr>USDKRW = Null, EURKRW = Null, DXY = Null, KR10Y = Null, US10Y = Null, spread10y_cd = Null,
          asofKST_cd = ''boot'', errors_cd = []\<rparr>, []))
     = [\<lparr>ts = 4000, symbol = ''USDKRW'', val = Fin 1301\<rparr>, \<lparr>ts = 4000, symbol = ''EURKRW'', val = Fin 1401\<rparr>,
        \<lparr>ts = 4000, symbol = ''DXY'', val = Fin 99\<rparr>, \<lparr>ts = 4000, symbol = ''KR10Y'', val = Fin 3\<rparr>,
        \<lparr>ts = 4000, symbol = ''US10Y'', val = Fin 4\<rparr>]
   \<and> spread10y_cd (fst (collectData (Inr (Fin 1301, Fin 1401)) (Inr (Fin 3, Fin 4)) (Inr (Fin 99)) 4000000 ''asof''
        (\<lparr>USDKRW = Null, EURKRW = Null, DXY = Null, KR10Y = Null, US10Y = Null, spread10y_cd = Null,
          asofKST_cd = ''boot'', errors_cd = []\<rparr>, [])))
     = ToFixed2 (Fin 1)"
proof -
  let ?sc = "\<lparr>USDKRW = Null, EURKRW = Null, DXY = Null, KR10Y = Null, US10Y = Null, spread10y_cd = Null,
          asofKST_cd = ''boot'', errors_cd = []\<rparr>"
  let ?c = "collectData (Inr (Fin 1301, Fin 1401)) (Inr (Fin 3, Fin 4)) (Inr (Fin 99)) 4000000 ''asof'' (?sc, [])"
  have e: "refresh (Inr (Number (Fin 1301), Number (Fin 1401))) (Inr (Fin 3)) (Inr (Fin 4)) (Inr (Fin 99))
      4000 ''asof'' (state0, [])
   = (\<lparr>asofKST = Some ''asof'', status = OK, usdkrw = Number (Fin 1301), eurkrw = Number (Fin 1401),
       dxy = Number (Fin 99), kr10y = Number (Fin 3), us10y = Number (Fin 4),
       spread10y = Number (Fin 1), errors = []\<rparr>,
      [\<lparr>ts = 4000, symbol = ''USDKRW'', val = Fin 1301\<rparr>, \<lparr>ts = 4000, symbol = ''EURKRW'', val = Fin 1401\<rparr>,
       \<lparr>ts = 4000, symbol = ''DXY'', val = Fin 99\<rparr>, \<lparr>ts = 4000, symbol = ''KR10Y'', val = Fin 3\<rparr>,
       \<lparr>ts = 4000, symbol = ''US10Y'', val = Fin 4\<rparr>, \<lparr>ts = 4000, symbol = ''SPREAD10Y'', val = Fin 1\<rparr>])"
    by (simp add: refresh_eval ieee_eval)
  have c: "?c = (fst ?c, snd ?c)" by simp
  have s: "snd ?c = [\<lparr>ts = 4000, symbol = ''USDKRW'', val = Fin 1301\<rparr>, \<lparr>ts = 4000, symbol = ''EURKRW'', val = Fin 1401\<rparr>,
        \<lparr>ts = 4000, symbol = ''DXY'', val = Fin 99\<rparr>, \<lparr>ts = 4000, symbol = ''KR10Y'', val = Fin 3\<rparr>,
        \<lparr>ts = 4000, symbol = ''US10Y'', val = Fin 4\<rparr>]"
    by (simp add: collectData_def crawlNaverFx_cd_def crawlNaverBond_cd_def crawlInvestingDXY_cd_def
        Let_def notNaN_def saveTicks_cd_def rows_cd_def push_cd_def field_def map_add_def)
  from C9_spread_amended [OF e c] have "spread10y_cd (fst ?c) = ToFixed2 (Fin 1)"
    by (simp add: notNaN_def ieee_eval)
  with e s show ?thesis by simp
qed

subsection \<open>The analysis guard\<close>

text \<open>
  Number of backend calls of a request that is not served from the cache, the status of
  the responses of \<^verbatim>\<open>part_002\<close>, and what a call of the backend does to the cooldown of
  \<^verbatim>\<open>part_001\<close>: a request that calls the backend found the cooldown elapsed and sets
  \<^verbatim>\<open>lastAnalysisTime\<close> to its own instant; a request that does not call it leaves the
  guard as it was. Hence the calls of any run are spaced by the cooldown.
\<close>

lemma generate_calls:
  "snd (snd (generate ev smb now ch)) = (if apiKey ev \<and> \<not> isl (gather ev) then 1 else 0)"
  by (simp add: generate_def Let_def split: sum.splits)

lemma http_on_error: "http (on_error ev smb ch msg) = 200 \<and> degraded (on_error ev smb ch msg)"
  by (simp add: on_error_def split: option.splits)

lemma http_generate: "http (fst (generate ev smb now ch)) = 200"
  by (simp add: generate_def Let_def http_on_error split: sum.splits)

lemma http_api_analysis: "http (fst (api_analysis ev q now ch)) = 200"
  by (simp add: api_analysis_def Let_def http_generate split: option.splits)

lemma api_analysis_miss:
  "\<not> fresh_hit ch (map toUpperChar (queryParam q ''USDKRW'')) now \<Longrightarrow>
   api_analysis ev q now ch = generate ev (map toUpperChar (queryParam q ''USDKRW'')) now ch"
  by (simp add: api_analysis_def fresh_hit_def Let_def split: option.splits)

lemma api_analysis_cd_miss:
  "\<not> fresh_hit_cd g (''analysis_'' @ queryParam q ''USDKRW'') now \<Longrightarrow>
   api_analysis_cd ev q now g =
     generate_cd ev (queryParam q ''USDKRW'') (''analysis_'' @ queryParam q ''USDKRW'') now g"
  by (simp add: api_analysis_cd_def fresh_hit_cd_def Let_def split: option.splits)

lemma generate_cd_calls:
  "snd (snd (generate_cd ev smb key now g)) =
     (if ANALYSIS_COOLDOWN_MS \<le> now - lastAnalysisTime g \<and> openai ev then 1 else 0)"
  by (simp add: generate_cd_def Let_def split: sum.splits)

lemma api_analysis_cd_step:
  assumes "api_analysis_cd ev q now g = (r, g', n)"
  shows "(n = 0 \<longrightarrow> g' = g)
       \<and> (n \<noteq> 0 \<longrightarrow> lastAnalysisTime g + ANALYSIS_COOLDOWN_MS \<le> now \<and> lastAnalysisTime g' = now)"
  using assms
  by (auto simp: api_analysis_cd_def generate_cd_def Let_def split: option.splits if_splits sum.splits)

lemma call_times_cd_spaced:
  "sorted_wrt (\<lambda>a b. a + ANALYSIS_COOLDOWN_MS \<le> b) (call_times_cd reqs g)
   \<and> (\<forall>c\<in>set (call_times_cd reqs g). lastAnalysisTime g + ANALYSIS_COOLDOWN_MS \<le> c)"
proof (induction reqs arbitrary: g)
  case Nil
  then show ?case by simp
next
  case (Cons x reqs)
  obtain ev q now where x: "x = (ev, q, now)" by (cases x) auto
  obtain r g' n where s: "api_analysis_cd ev q now g = (r, g', n)" by (cases "api_analysis_cd ev q now g") auto
  have cd: "0 \<le> ANALYSIS_COOLDOWN_MS" by (simp add: ANALYSIS_COOLDOWN_MS_def)
  note st = api_analysis_cd_step [OF s]
  note ih = Cons.IH [of g']
  show ?case
  proof (cases "n = 0")
    case True
    with st have "g' = g" by simp
    with ih True s x show ?thesis by simp
  next
    case False
    with st have a: "lastAnalysisTime g + ANALYSIS_COOLDOWN_MS \<le> now" and b: "lastAnalysisTime g' = now"
      by simp_all
    from ih b have t: "\<forall>c\<in>set (call_times_cd reqs g'). now + ANALYSIS_COOLDOWN_MS \<le> c" by simp
    from ih have w: "sorted_wrt (\<lambda>a b. a + ANALYSIS_COOLDOWN_MS \<le> b) (call_times_cd reqs g')" by simp
    have c: "call_times_cd (x # reqs) g = now # call_times_cd reqs g'" using False s x by simp
    from t a cd have "\<forall>c\<in>set (call_times_cd reqs g'). lastAnalysisTime g + ANALYSIS_COOLDOWN_MS \<le> c"
      by fastforce
    with t w a show ?thesis unfolding c by simp
  qed
qed

lemmas analysis_eval = api_analysis_cd_def generate_cd_def guard0_def queryParam_def orDefault_def Let_def
  ANALYSIS_TTL_MS_cd_def ANALYSIS_COOLDOWN_MS_def ceil1000_def
  api_analysis_def generate_def on_error_def ANALYSIS_TTL_MS_def toUpperChar_def isRateLimit_def
  toLowerChar_def

text \<open>
  \<^verbatim>\<open>part_002\<close> has no cooldown: two requests one millisecond apart, for two symbols, both
  call the backend. In \<^verbatim>\<open>part_001\<close> the cache is looked up before the cooldown: a second
  request for the same symbol one millisecond after a successful one is inside the
  cooldown and is answered from the cache, not with a wait.
\<close>

theorem C6_cooldown_counterexample:
  "call_times
     [(\<lparr>apiKey = True, gather = Inr (), completion = Inr ''a'', kst = ''t1''\<rparr>, Some ''USDKRW'', 1000),
      (\<lparr>apiKey = True, gather = Inr (), completion = Inr ''b'', kst = ''t2''\<rparr>, Some ''EURKRW'', 1001)]
     Map.empty = [1000, 1001]
   \<and> api_analysis_cd \<lparr>openai = True, completion_cd = Inr ''b'', kst_cd = ''t2''\<rparr> (Some ''USDKRW'') 1000001
       (fst (snd (api_analysis_cd \<lparr>openai = True, completion_cd = Inr ''a'', kst_cd = ''t1''\<rparr>
                    (Some ''USDKRW'') 1000000 guard0)))
     = (CachedData \<lparr>res_symbol = ''USDKRW'', res_analysis = ''a'', res_asofKST = ''t1'',
                     res_cachedUntil = 44200000\<rparr>,
        \<lparr>analysisCache = [''analysis_USDKRW'' \<mapsto>
            \<lparr>data = \<lparr>res_symbol = ''USDKRW'', res_analysis = ''a'', res_asofKST = ''t1'',
                      res_cachedUntil = 44200000\<rparr>, timestamp = 1000000\<rparr>],
          lastAnalysisTime = 1000000\<rparr>, 0)"
  by (simp add: analysis_eval)

text \<open>
  C6, as amended. Claim: a request that arrives while \<open>now - lastGlobalCallTime < cooldown\<close>
  makes no backend call, leaves \<open>lastGlobalCallTime\<close> unchanged and returns a "not yet"
  outcome with the remaining wait; so at most one backend call is issued per cooldown
  window. What holds, in \<^verbatim>\<open>part_001\<close>: such a request, unless the cache holds a fresh
  entry for its symbol, is answered with status 429 and the remaining wait in seconds,
  makes no call and leaves the guard unchanged; with a fresh entry it is answered from the
  cache, again with no call and the guard unchanged; and in every run, any two backend
  calls are at least the cooldown apart. \<^verbatim>\<open>part_002\<close> has a cache only and no cooldown.
\<close>

theorem C6_cooldown_amended:
  "(\<not> fresh_hit_cd g (''analysis_'' @ queryParam q ''USDKRW'') now
      \<and> now - lastAnalysisTime g < ANALYSIS_COOLDOWN_MS \<longrightarrow>
      api_analysis_cd ev q now g =
        (CooldownWait (ceil1000 (ANALYSIS_COOLDOWN_MS - (now - lastAnalysisTime g))), g, 0))
   \<and> (fresh_hit_cd g (''analysis_'' @ queryParam q ''USDKRW'') now \<longrightarrow>
      (\<exists>r. api_analysis_cd ev q now g = (CachedData r, g, 0)))
   \<and> sorted_wrt (\<lambda>a b. a + ANALYSIS_COOLDOWN_MS \<le> b) (call_times_cd reqs g)"
proof -
  have 1: "\<not> fresh_hit_cd g (''analysis_'' @ queryParam q ''USDKRW'') now
      \<and> now - lastAnalysisTime g < ANALYSIS_COOLDOWN_MS \<longrightarrow>
      api_analysis_cd ev q now g =
        (CooldownWait (ceil1000 (ANALYSIS_COOLDOWN_MS - (now - lastAnalysisTime g))), g, 0)"
    by (simp add: api_analysis_cd_miss generate_cd_def)
  have 2: "fresh_hit_cd g (''analysis_'' @ queryParam q ''USDKRW'') now \<longrightarrow>
      (\<exists>r. api_analysis_cd ev q now g = (CachedData r, g, 0))"
    by (auto simp: api_analysis_cd_def fresh_hit_cd_def Let_def split: option.splits)
  from 1 2 call_times_cd_spaced [of reqs g] show ?thesis by blast
qed

theorem C6_cooldown_amended_witness:
  "\<not> fresh_hit_cd \<lparr>analysisCache = Map.empty, lastAnalysisTime = 1000000\<rparr>
       (''analysis_'' @ queryParam (Some ''EURKRW'') ''USDKRW'') 1060000
   \<and> 1060000 - lastAnalysisTime \<lparr>analysisCache = Map.empty, lastAnalysisTime = 1000000\<rparr> < ANALYSIS_COOLDOWN_MS
   \<and> api_analysis_cd \<lparr>openai = True, completion_cd = Inr ''b'', kst_cd = ''t2''\<rparr> (Some ''EURKRW'') 1060000
       \<lparr>analysisCache = Map.empty, lastAnalysisTime = 1000000\<rparr>
     = (CooldownWait 240, \<lparr>analysisCache = Map.empty, lastAnalysisTime = 1000000\<rparr>, 0)
   \<and> call_times_cd
       [(\<lparr>openai = True, completion_cd = Inr ''a'', kst_cd = ''t1''\<rparr>, Some ''USDKRW'', 1000000),
        (\<lparr>openai = True, completion_cd = Inr ''b'', kst_cd = ''t2''\<rparr>, Some ''EURKRW'', 1060000),
        (\<lparr>openai = True, completion_cd = Inl None, kst_cd = ''t3''\<rparr>, Some ''EURKRW'', 1300000),
        (\<lparr>openai = True, completion_cd = Inr ''d'', kst_cd = ''t4''\<rparr>, Some ''DXY'', 1400000)]
       guard0 = [1000000, 1300000]"
proof -
  let ?g = "\<lparr>analysisCache = Map.empty, lastAnalysisTime = 1000000\<rparr>"
  let ?ev = "\<lparr>openai = True, completion_cd = Inr ''b'', kst_cd = ''t2''\<rparr>"
  have h1: "\<not> fresh_hit_cd ?g (''analysis_'' @ queryParam (Some ''EURKRW'') ''USDKRW'') 1060000"
    by (simp add: fresh_hit_cd_def)
  have h2: "1060000 - lastAnalysisTime ?g < ANALYSIS_COOLDOWN_MS" by (simp add: ANALYSIS_COOLDOWN_MS_def)
  from C6_cooldown_amended [of ?g "Some ''EURKRW''" 1060000 ?ev "[]"] h1 h2
  have "api_analysis_cd ?ev (Some ''EURKRW'') 1060000 ?g =
        (CooldownWait (ceil1000 (ANALYSIS_COOLDOWN_MS - (1060000 - lastAnalysisTime ?g))), ?g, 0)"
    by blast
  then have a: "api_analysis_cd ?ev (Some ''EURKRW'') 1060000 ?g = (CooldownWait 240, ?g, 0)"
    by (simp add: ANALYSIS_COOLDOWN_MS_def ceil1000_def)
  have c: "call_times_cd
       [(\<lparr>openai = True, completion_cd = Inr ''a'', kst_cd = ''t1''\<rparr>, Some ''USDKRW'', 1000000),
        (\<lparr>openai = True, completion_cd = Inr ''b'', kst_cd = ''t2''\<rparr>, Some ''EURKRW'', 1060000),
        (\<lparr>openai = True, completion_cd = Inl None, kst_cd = ''t3''\<rparr>, Some ''EURKRW'', 1300000),
        (\<lparr>openai = True, completion_cd = Inr ''d'', kst_cd = ''t4''\<rparr>, Some ''DXY'', 1400000)]
       guard0 = [1000000, 1300000]"
    by (simp add: analysis_eval)
  from h1 h2 a c show ?thesis by blast
qed

text \<open>
  In \<^verbatim>\<open>part_001\<close> a failure of the backend is answered with an error status, whatever the
  cache holds: with an expired entry for the symbol and the backend failing with status
  429, the response is status 429, not the cached payload; any other failure is status
  500.
\<close>

theorem C7_hard_error_counterexample:
  "api_analysis_cd \<lparr>openai = True, completion_cd = Inl (Some 429), kst_cd = ''t''\<rparr> (Some ''USDKRW'') 43200000
     \<lparr>analysisCache = [''analysis_USDKRW'' \<mapsto>
         \<lparr>data = \<lparr>res_symbol = ''USDKRW'', res_analysis = ''a'', res_asofKST = ''t0'',
                   res_cachedUntil = 43200000\<rparr>, timestamp = 0\<rparr>],
       lastAnalysisTime = 0\<rparr>
   = (UpstreamRateLimited,
      \<lparr>analysisCache = [''analysis_USDKRW'' \<mapsto>
         \<lparr>data = \<lparr>res_symbol = ''USDKRW'', res_analysis = ''a'', res_asofKST = ''t0'',
                   res_cachedUntil = 43200000\<rparr>, timestamp = 0\<rparr>],
       lastAnalysisTime = 43200000\<rparr>, 1)
   \<and> http_cd UpstreamRateLimited = 429
   \<and> fst (api_analysis_cd \<lparr>openai = True, completion_cd = Inl None, kst_cd = ''t''\<rparr> (Some ''USDKRW'')
            43200000 guard0) = GenerationFailed
   \<and> http_cd GenerationFailed = 500"
  by (simp add: analysis_eval)

text \<open>
  C7, as amended. Claim: when the backend fails with a rate-limit error the guard returns
  the cached payload, even if expired, marked degraded, or a degraded placeholder when
  there is none; no failure of the backend is propagated as a hard error. What holds: in
  \<^verbatim>\<open>part_002\<close> every response has status 200, and when the backend throws, the response
  is the cached payload of the symbol marked degraded if the message is recognised as a
  rate limit and an entry exists, a degraded placeholder if it is recognised and there is
  no entry, and a degraded placeholder carrying the message otherwise, the cache being
  unchanged. In \<^verbatim>\<open>part_001\<close> a failure of the backend is answered with status 429 when
  the error's status is 429 and with status 500 otherwise, whatever the cache holds.
\<close>

theorem C7_degraded_amended:
  "http (fst (api_analysis ev q now ch)) = 200
   \<and> (\<not> fresh_hit ch (map toUpperChar (queryParam q ''USDKRW'')) now \<and> apiKey ev
        \<and> gather ev = Inr i \<and> completion ev = Inl msg \<longrightarrow>
      api_analysis ev q now ch =
        ((if isRateLimit msg
          then (case ch (map toUpperChar (queryParam q ''USDKRW'')) of
                  Some cached2 \<Rightarrow> StaleCached (e_payload cached2)
                | None \<Rightarrow> RateLimitedNoCache (kst ev) (map toUpperChar (queryParam q ''USDKRW'')))
          else Failed (kst ev) (map toUpperChar (queryParam q ''USDKRW'')) msg), ch, 1)
      \<and> degraded (fst (api_analysis ev q now ch)))
   \<and> (\<not> fresh_hit_cd g (''analysis_'' @ queryParam q ''USDKRW'') now
        \<and> ANALYSIS_COOLDOWN_MS \<le> now - lastAnalysisTime g \<and> openai ev_cd
        \<and> completion_cd ev_cd = Inl st \<longrightarrow>
      api_analysis_cd ev_cd q now g =
        ((if st = Some 429 then UpstreamRateLimited else GenerationFailed),
         g\<lparr>lastAnalysisTime := now\<rparr>, 1)
      \<and> http_cd (fst (api_analysis_cd ev_cd q now g)) = (if st = Some 429 then 429 else 500))"
proof -
  have 1: "http (fst (api_analysis ev q now ch)) = 200" by (rule http_api_analysis)
  have 2: "\<not> fresh_hit ch (map toUpperChar (queryParam q ''USDKRW'')) now \<and> apiKey ev
        \<and> gather ev = Inr i \<and> completion ev = Inl msg \<longrightarrow>
      api_analysis ev q now ch =
        ((if isRateLimit msg
          then (case ch (map toUpperChar (queryParam q ''USDKRW'')) of
                  Some cached2 \<Rightarrow> StaleCached (e_payload cached2)
                | None \<Rightarrow> RateLimitedNoCache (kst ev) (map toUpperChar (queryParam q ''USDKRW'')))
          else Failed (kst ev) (map toUpperChar (queryParam q ''USDKRW'')) msg), ch, 1)
      \<and> degraded (fst (api_analysis ev q now ch))"
    by (simp add: api_analysis_miss generate_def on_error_def split: option.splits)
  have 3: "\<not> fresh_hit_cd g (''analysis_'' @ queryParam q ''USDKRW'') now
        \<and> ANALYSIS_COOLDOWN_MS \<le> now - lastAnalysisTime g \<and> openai ev_cd
        \<and> completion_cd ev_cd = Inl st \<longrightarrow>
      api_analysis_cd ev_cd q now g =
        ((if st = Some 429 then UpstreamRateLimited else GenerationFailed),
         g\<lparr>lastAnalysisTime := now\<rparr>, 1)
      \<and> http_cd (fst (api_analysis_cd ev_cd q now g)) = (if st = Some 429 then 429 else 500)"
    by (simp add: api_analysis_cd_miss generate_cd_def Let_def)
  from 1 2 3 show ?thesis by blast
qed

theorem C7_degraded_amended_witness:
  "\<not> fresh_hit [''USDKRW'' \<mapsto> \<lparr>e_ts = 0, e_payload = \<lparr>p_asofKST = ''t0'', p_symbol = ''USDKRW'',
                                                          p_inputs = (), p_analysis = ''a''\<rparr>\<rparr>]
        (map toUpperChar (queryParam (Some ''usdkrw'') ''USDKRW'')) 7200000
   \<and> isRateLimit ''429 Rate limit reached''
   \<and> api_analysis \<lparr>apiKey = True, gather = Inr (), completion = Inl ''429 Rate limit reached'', kst = ''t''\<rparr>
        (Some ''usdkrw'') 7200000
        [''USDKRW'' \<mapsto> \<lparr>e_ts = 0, e_payload = \<lparr>p_asofKST = ''t0'', p_symbol = ''USDKRW'',
                                                    p_inputs = (), p_analysis = ''a''\<rparr>\<rparr>]
     = (StaleCached \<lparr>p_asofKST = ''t0'', p_symbol = ''USDKRW'', p_inputs = (), p_analysis = ''a''\<rparr>,
        [''USDKRW'' \<mapsto> \<lparr>e_ts = 0, e_payload = \<lparr>p_asofKST = ''t0'', p_symbol = ''USDKRW'',
                                                    p_inputs = (), p_analysis = ''a''\<rparr>\<rparr>], 1)
   \<and> api_analysis \<lparr>apiKey = True, gather = Inr (), completion = Inl ''429 Rate limit reached'', kst = ''t''\<rparr>
        (Some ''usdkrw'') 7200000 Map.empty
     = (RateLimitedNoCache ''t'' ''USDKRW'', Map.empty, 1)
   \<and> api_analysis \<lparr>apiKey = True, gather = Inr (), completion = Inl ''socket hang up'', kst = ''t''\<rparr>
        (Some ''usdkrw'') 7200000 Map.empty
     = (Failed ''t'' ''USDKRW'' ''socket hang up'', Map.empty, 1)
   \<and> api_analysis_cd \<lparr>openai = True, completion_cd = Inl (Some 429), kst_cd = ''t''\<rparr> None 1000000 guard0
     = (UpstreamRateLimited, guard0\<lparr>lastAnalysisTime := 1000000\<rparr>, 1)"
proof -
  let ?ch = "[''USDKRW'' \<mapsto> \<lparr>e_ts = 0, e_payload = \<lparr>p_asofKST = ''t0'', p_symbol = ''USDKRW'',
                                                    p_inputs = (), p_analysis = ''a''\<rparr>\<rparr>]"
  let ?ev = "\<lparr>apiKey = True, gather = Inr (), completion = Inl ''429 Rate limit reached'', kst = ''t''\<rparr>"
  let ?ev2 = "\<lparr>apiKey = True, gather = Inr (), completion = Inl ''socket hang up'', kst = ''t''\<rparr>"
  let ?evc = "\<lparr>openai = True, completion_cd = Inl (Some 429), kst_cd = ''t''\<rparr>"
  have u: "map toUpperChar (queryParam (Some ''usdkrw'') ''USDKRW'') = ''USDKRW''"
    by (simp add: queryParam_def orDefault_def toUpperChar_def)
  have h1: "\<not> fresh_hit ?ch (map toUpperChar (queryParam (Some ''usdkrw'') ''USDKRW'')) 7200000"
    unfolding u by (simp add: fresh_hit_def ANALYSIS_TTL_MS_def)
  have h1': "\<not> fresh_hit (Map.empty :: unit cache) (map toUpperChar (queryParam (Some ''usdkrw'') ''USDKRW'')) 7200000"
    by (simp add: fresh_hit_def)
  have r: "isRateLimit ''429 Rate limit reached''" by (simp add: isRateLimit_def)
  have nr: "\<not> isRateLimit ''socket hang up''" by (simp add: isRateLimit_def toLowerChar_def)
  have hc: "\<not> fresh_hit_cd guard0 (''analysis_'' @ queryParam None ''USDKRW'') 1000000"
    by (simp add: fresh_hit_cd_def guard0_def)
  have hd: "ANALYSIS_COOLDOWN_MS \<le> 1000000 - lastAnalysisTime guard0"
    by (simp add: guard0_def ANALYSIS_COOLDOWN_MS_def)
  from h1 r C7_degraded_amended [of ?ev "Some ''usdkrw''" 7200000 ?ch "()" "''429 Rate limit reached''"
      guard0 ?evc "Some 429"]
  have a: "api_analysis ?ev (Some ''usdkrw'') 7200000 ?ch
      = (StaleCached \<lparr>p_asofKST = ''t0'', p_symbol = ''USDKRW'', p_inputs = (), p_analysis = ''a''\<rparr>, ?ch, 1)"
    by (simp add: u)
  from h1' r C7_degraded_amended [of ?ev "Some ''usdkrw''" 7200000 Map.empty "()" "''429 Rate limit reached''"
      guard0 ?evc "Some 429"]
  have b: "api_analysis ?ev (Some ''usdkrw'') 7200000 Map.empty = (RateLimitedNoCache ''t'' ''USDKRW'', Map.empty, 1)"
    by (simp add: u)
  from h1' nr C7_degraded_amended [of ?ev2 "Some ''usdkrw''" 7200000 Map.empty "()" "''socket hang up''"
      guard0 ?evc "Some 429"]
  have c: "api_analysis ?ev2 (Some ''usdkrw'') 7200000 Map.empty = (Failed ''t'' ''USDKRW'' ''socket hang up'', Map.empty, 1)"
    by (simp add: u)
  from hc hd C7_degraded_amended [of ?ev2 None 1000000 Map.empty "()" "''socket hang up''"
      guard0 ?evc "Some 429"]
  have d: "api_analysis_cd ?evc None 1000000 guard0 = (UpstreamRateLimited, guard0\<lparr>lastAnalysisTime := 1000000\<rparr>, 1)"
    by simp
  from h1 r a b c d show ?thesis by blast
qed

text \<open>
  After the expiry of an entry the next request need not reach the backend. In
  \<^verbatim>\<open>part_001\<close>: the entry of USDKRW is written at 1000000; a request for EURKRW calls the
  backend one minute before that entry expires; the request for USDKRW at the instant of
  expiry falls into the cooldown and makes no call. In \<^verbatim>\<open>part_002\<close>: without an API key
  the request after expiry is answered with a notice and makes no call.
\<close>

theorem C8_ttl_counterexample:
  "call_times_cd
     [(\<lparr>openai = True, completion_cd = Inr ''a'', kst_cd = ''t1''\<rparr>, Some ''USDKRW'', 1000000),
      (\<lparr>openai = True, completion_cd = Inr ''b'', kst_cd = ''t2''\<rparr>, Some ''EURKRW'', 44140000),
      (\<lparr>openai = True, completion_cd = Inr ''c'', kst_cd = ''t3''\<rparr>, Some ''USDKRW'', 44200000)]
     guard0 = [1000000, 44140000]
   \<and> api_analysis \<lparr>apiKey = False, gather = Inr (), completion = Inr ''c'', kst = ''t''\<rparr>
        (Some ''USDKRW'') 7200000
        [''USDKRW'' \<mapsto> \<lparr>e_ts = 0, e_payload = \<lparr>p_asofKST = ''t0'', p_symbol = ''USDKRW'',
                                                    p_inputs = (), p_analysis = ''a''\<rparr>\<rparr>]
     = (NoKey ''t'' ''USDKRW'',
        [''USDKRW'' \<mapsto> \<lparr>e_ts = 0, e_payload = \<lparr>p_asofKST = ''t0'', p_symbol = ''USDKRW'',
                                                    p_inputs = (), p_analysis = ''a''\<rparr>\<rparr>], 0)"
  by (simp add: api_analysis_cd_def generate_cd_def guard0_def queryParam_def orDefault_def Let_def
      ANALYSIS_TTL_MS_cd_def ANALYSIS_COOLDOWN_MS_def ceil1000_def
      api_analysis_def generate_def ANALYSIS_TTL_MS_def toUpperChar_def)

text \<open>
  C8, as amended. Claim: a request for a symbol whose cache entry is younger than the TTL
  is answered with that entry and makes no backend call; after the TTL has elapsed the
  next request makes exactly one call. What holds: the first part, in both revisions; and
  a request that finds no fresh entry makes exactly one call when the backend can be
  reached, and none otherwise: in \<^verbatim>\<open>part_002\<close> one call when the API key is set and the
  inputs were gathered without an exception; in \<^verbatim>\<open>part_001\<close> one call when the cooldown
  has elapsed and the client exists.
\<close>

theorem C8_ttl_amended:
  "(ch (map toUpperChar (queryParam q ''USDKRW'')) = Some e \<and> now - e_ts e < ANALYSIS_TTL_MS \<longrightarrow>
      api_analysis ev q now ch = (CacheHit (e_payload e) ((now - e_ts e) div 1000), ch, 0))
   \<and> (\<not> fresh_hit ch (map toUpperChar (queryParam q ''USDKRW'')) now \<longrightarrow>
      snd (snd (api_analysis ev q now ch)) = (if apiKey ev \<and> \<not> isl (gather ev) then 1 else 0))
   \<and> (analysisCache g (''analysis_'' @ queryParam q ''USDKRW'') = Some c
        \<and> now - timestamp c < ANALYSIS_TTL_MS_cd \<longrightarrow>
      api_analysis_cd ev_cd q now g = (CachedData (data c), g, 0))
   \<and> (\<not> fresh_hit_cd g (''analysis_'' @ queryParam q ''USDKRW'') now \<longrightarrow>
      snd (snd (api_analysis_cd ev_cd q now g)) =
        (if ANALYSIS_COOLDOWN_MS \<le> now - lastAnalysisTime g \<and> openai ev_cd then 1 else 0))"
proof -
  have 1: "ch (map toUpperChar (queryParam q ''USDKRW'')) = Some e \<and> now - e_ts e < ANALYSIS_TTL_MS \<longrightarrow>
      api_analysis ev q now ch = (CacheHit (e_payload e) ((now - e_ts e) div 1000), ch, 0)"
    by (simp add: api_analysis_def Let_def)
  have 2: "\<not> fresh_hit ch (map toUpperChar (queryParam q ''USDKRW'')) now \<longrightarrow>
      snd (snd (api_analysis ev q now ch)) = (if apiKey ev \<and> \<not> isl (gather ev) then 1 else 0)"
    by (simp add: api_analysis_miss generate_calls)
  have 3: "analysisCache g (''analysis_'' @ queryParam q ''USDKRW'') = Some c
        \<and> now - timestamp c < ANALYSIS_TTL_MS_cd \<longrightarrow>
      api_analysis_cd ev_cd q now g = (CachedData (data c), g, 0)"
    by (simp add: api_analysis_cd_def Let_def)
  have 4: "\<not> fresh_hit_cd g (''analysis_'' @ queryParam q ''USDKRW'') now \<longrightarrow>
      snd (snd (api_analysis_cd ev_cd q now g)) =
        (if ANALYSIS_COOLDOWN_MS \<le> now - lastAnalysisTime g \<and> openai ev_cd then 1 else 0)"
    by (simp add: api_analysis_cd_miss generate_cd_calls)
  from 1 2 3 4 show ?thesis by blast
qed

theorem C8_ttl_amended_witness:
  "[''USDKRW'' \<mapsto> \<lparr>e_ts = 0, e_payload = \<lparr>p_asofKST = ''t0'', p_symbol = ''USDKRW'',
                                                p_inputs = (), p_analysis = ''a''\<rparr>\<rparr>]
      (map toUpperChar (queryParam None ''USDKRW''))
     = Some \<lparr>e_ts = 0, e_payload = \<lparr>p_asofKST = ''t0'', p_symbol = ''USDKRW'', p_inputs = (), p_analysis = ''a''\<rparr>\<rparr>
   \<and> 7199999 - 0 < ANALYSIS_TTL_MS
   \<and> api_analysis \<lparr>apiKey = True, gather = Inr (), completion = Inr ''b'', kst = ''t''\<rparr> None 7199999
        [''USDKRW'' \<mapsto> \<lparr>e_ts = 0, e_payload = \<lparr>p_asofKST = ''t0'', p_symbol = ''USDKRW'',
                                                    p_inputs = (), p_analysis = ''a''\<rparr>\<rparr>]
     = (CacheHit \<lparr>p_asofKST = ''t0'', p_symbol = ''USDKRW'', p_inputs = (), p_analysis = ''a''\<rparr> 7199,
        [''USDKRW'' \<mapsto> \<lparr>e_ts = 0, e_payload = \<lparr>p_asofKST = ''t0'', p_symbol = ''USDKRW'',
                                                    p_inputs = (), p_analysis = ''a''\<rparr>\<rparr>], 0)
   \<and> \<not> fresh_hit [''USDKRW'' \<mapsto> \<lparr>e_ts = 0, e_payload = \<lparr>p_asofKST = ''t0'', p_symbol = ''USDKRW'',
                                                    p_inputs = (), p_analysis = ''a''\<rparr>\<rparr>]
         (map toUpperChar (queryParam None ''USDKRW'')) 7200000
   \<and> snd (snd (api_analysis \<lparr>apiKey = True, gather = Inr (), completion = Inr ''b'', kst = ''t''\<rparr> None 7200000
        [''USDKRW'' \<mapsto> \<lparr>e_ts = 0, e_payload = \<lparr>p_asofKST = ''t0'', p_symbol = ''USDKRW'',
                                                    p_inputs = (), p_analysis = ''a''\<rparr>\<rparr>])) = 1
   \<and> \<not> fresh_hit_cd guard0 (''analysis_'' @ queryParam None ''USDKRW'') 1000000
   \<and> snd (snd (api_analysis_cd \<lparr>openai = True, completion_cd = Inr ''b'', kst_cd = ''t''\<rparr> None 1000000 guard0)) = 1"
proof -
  let ?e = "\<lparr>e_ts = 0, e_payload = \<lparr>p_asofKST = ''t0'', p_symbol = ''USDKRW'', p_inputs = (), p_analysis = ''a''\<rparr>\<rparr>"
  let ?ch = "[''USDKRW'' \<mapsto> ?e]"
  let ?ev = "\<lparr>apiKey = True, gather = Inr (), completion = Inr ''b'', kst = ''t''\<rparr>"
  let ?evc = "\<lparr>openai = True, completion_cd = Inr ''b'', kst_cd = ''t''\<rparr>"
  let ?c = "\<lparr>data = \<lparr>res_symbol = ''USDKRW'', res_analysis = ''a'', res_asofKST = ''t0'',
                      res_cachedUntil = 43200000\<rparr>, timestamp = 0\<rparr>"
  have u: "map toUpperChar (queryParam None ''USDKRW'') = ''USDKRW''"
    by (simp add: queryParam_def toUpperChar_def)
  have h1: "?ch (map toUpperChar (queryParam None ''USDKRW'')) = Some ?e" unfolding u by simp
  have h2: "7199999 - 0 < ANALYSIS_TTL_MS" by (simp add: ANALYSIS_TTL_MS_def)
  have h3: "\<not> fresh_hit ?ch (map toUpperChar (queryParam None ''USDKRW'')) 7200000"
    unfolding u by (simp add: fresh_hit_def ANALYSIS_TTL_MS_def)
  have h4: "\<not> fresh_hit_cd guard0 (''analysis_'' @ queryParam None ''USDKRW'') 1000000"
    by (simp add: fresh_hit_cd_def guard0_def)
  from h1 h2 C8_ttl_amended [of ?ch None ?e 7199999 ?ev guard0 ?c ?evc]
  have a: "api_analysis ?ev None 7199999 ?ch = (CacheHit (e_payload ?e) ((7199999 - e_ts ?e) div 1000), ?ch, 0)"
    by simp
  from h3 C8_ttl_amended [of ?ch None ?e 7200000 ?ev guard0 ?c ?evc]
  have b: "snd (snd (api_analysis ?ev None 7200000 ?ch)) = 1" by simp
  from h4 C8_ttl_amended [of ?ch None ?e 1000000 ?ev guard0 ?c ?evc]
  have c: "snd (snd (api_analysis_cd ?evc None 1000000 guard0)) = 1"
    by (simp add: guard0_def ANALYSIS_COOLDOWN_MS_def)
  from a have a': "api_analysis ?ev None 7199999 ?ch
     = (CacheHit \<lparr>p_asofKST = ''t0'', p_symbol = ''USDKRW'', p_inputs = (), p_analysis = ''a''\<rparr> 7199, ?ch, 0)"
    by simp
  from h1 h2 a' h3 b h4 c show ?thesis by blast
qed

end
